theory Spec2Isabelle
  imports Complex_Main
begin

section \<open>JavaScript strings\<close>

text \<open>
  The report text and every string derived from it is a JavaScript string, a sequence of
  UTF-16 code units. The model uses \<^typ>\<open>string\<close>, whose characters are the code units
  below 256 (Latin-1). That covers the biomarker dictionary and every pattern of the route;
  the one pattern character beyond it, the en dash U+2013 offered next to the hyphen in the
  range patterns, cannot occur in such a text.
\<close>

definition code :: "char \<Rightarrow> nat" where
  "code c = of_char c"

definition isDigit :: "char \<Rightarrow> bool" where
  "isDigit c = (48 \<le> code c \<and> code c \<le> 57)"

definition isAlpha :: "char \<Rightarrow> bool" where
  "isAlpha c = ((65 \<le> code c \<and> code c \<le> 90) \<or> (97 \<le> code c \<and> code c \<le> 122))"

definition isLower :: "char \<Rightarrow> bool" where
  "isLower c = (97 \<le> code c \<and> code c \<le> 122)"

text \<open>\<open>\s\<close> and the characters \<open>trim\<close> strips: tab, line feed, vertical tab, form feed,
  carriage return, space and the no-break space.\<close>

definition isSpace :: "char \<Rightarrow> bool" where
  "isSpace c = (code c = 9 \<or> code c = 10 \<or> code c = 11 \<or> code c = 12 \<or> code c = 13
                \<or> code c = 32 \<or> code c = 160)"

text \<open>\<open>\w\<close>\<close>

definition isWord :: "char \<Rightarrow> bool" where
  "isWord c = (isAlpha c \<or> isDigit c \<or> c = CHR ''_'')"

definition isLineTerminator :: "char \<Rightarrow> bool" where
  "isLineTerminator c = (code c = 10 \<or> code c = 13)"

definition toUpperChar :: "char \<Rightarrow> char" where
  "toUpperChar c =
     (if (97 \<le> code c \<and> code c \<le> 122) \<or> (224 \<le> code c \<and> code c \<le> 254 \<and> code c \<noteq> 247)
      then char_of (code c - 32) else c)"

definition toLowerChar :: "char \<Rightarrow> char" where
  "toLowerChar c =
     (if (65 \<le> code c \<and> code c \<le> 90) \<or> (192 \<le> code c \<and> code c \<le> 222 \<and> code c \<noteq> 215)
      then char_of (code c + 32) else c)"

subsection \<open>Characters by their bits\<close>

text \<open>The same classes and case mappings read off the eight bits of a character (\<open>b0\<close> the
  lowest), for evaluation.\<close>

lemma isDigit_bits [code]:
  "isDigit (Char b0 b1 b2 b3 b4 b5 b6 b7) =
     (\<not> b7 \<and> \<not> b6 \<and> b5 \<and> b4 \<and> (\<not> b3 \<or> (\<not> b2 \<and> \<not> b1)))"
  by (cases b0; cases b1; cases b2; cases b3; cases b4; cases b5; cases b6; cases b7;
      simp add: isDigit_def code_def)

lemma isAlpha_bits [code]:
  "isAlpha (Char b0 b1 b2 b3 b4 b5 b6 b7) =
     (\<not> b7 \<and> b6 \<and> (b4 \<or> b3 \<or> b2 \<or> b1 \<or> b0) \<and> \<not> (b4 \<and> b3 \<and> (b2 \<or> (b1 \<and> b0))))"
  by (cases b0; cases b1; cases b2; cases b3; cases b4; cases b5; cases b6; cases b7;
      simp add: isAlpha_def code_def)

lemma isLower_bits [code]:
  "isLower (Char b0 b1 b2 b3 b4 b5 b6 b7) =
     (\<not> b7 \<and> b6 \<and> b5 \<and> (b4 \<or> b3 \<or> b2 \<or> b1 \<or> b0) \<and> \<not> (b4 \<and> b3 \<and> (b2 \<or> (b1 \<and> b0))))"
  by (cases b0; cases b1; cases b2; cases b3; cases b4; cases b5; cases b6; cases b7;
      simp add: isLower_def code_def)

lemma isSpace_bits [code]:
  "isSpace (Char b0 b1 b2 b3 b4 b5 b6 b7) =
     ((\<not> b7 \<and> \<not> b6 \<and> \<not> b5 \<and> \<not> b4 \<and> b3
        \<and> ((\<not> b2 \<and> (b1 \<or> b0)) \<or> (b2 \<and> \<not> b1)))
      \<or> (\<not> b6 \<and> b5 \<and> \<not> b4 \<and> \<not> b3 \<and> \<not> b2 \<and> \<not> b1 \<and> \<not> b0))"
  by (cases b0; cases b1; cases b2; cases b3; cases b4; cases b5; cases b6; cases b7;
      simp add: isSpace_def code_def)

lemma isLineTerminator_bits [code]:
  "isLineTerminator (Char b0 b1 b2 b3 b4 b5 b6 b7) =
     (\<not> b7 \<and> \<not> b6 \<and> \<not> b5 \<and> \<not> b4 \<and> b3
      \<and> ((\<not> b2 \<and> b1 \<and> \<not> b0) \<or> (b2 \<and> \<not> b1 \<and> b0)))"
  by (cases b0; cases b1; cases b2; cases b3; cases b4; cases b5; cases b6; cases b7;
      simp add: isLineTerminator_def code_def)

lemma toUpperChar_bits [code]:
  "toUpperChar (Char b0 b1 b2 b3 b4 b5 b6 b7) =
     (if (\<not> b7 \<and> b6 \<and> b5 \<and> (b4 \<or> b3 \<or> b2 \<or> b1 \<or> b0) \<and> \<not> (b4 \<and> b3 \<and> (b2 \<or> (b1 \<and> b0))))
         \<or> (b7 \<and> b6 \<and> b5 \<and> \<not> (b4 \<and> b2 \<and> b1 \<and> b0))
      then Char b0 b1 b2 b3 b4 False b6 b7 else Char b0 b1 b2 b3 b4 b5 b6 b7)"
  by (cases b0; cases b1; cases b2; cases b3; cases b4; cases b5; cases b6; cases b7;
      simp add: toUpperChar_def code_def; code_simp)

lemma toLowerChar_bits [code]:
  "toLowerChar (Char b0 b1 b2 b3 b4 b5 b6 b7) =
     (if (\<not> b7 \<and> b6 \<and> \<not> b5 \<and> (b4 \<or> b3 \<or> b2 \<or> b1 \<or> b0) \<and> \<not> (b4 \<and> b3 \<and> (b2 \<or> (b1 \<and> b0))))
         \<or> (b7 \<and> b6 \<and> \<not> b5 \<and> \<not> (b4 \<and> b2 \<and> b1 \<and> b0))
      then Char b0 b1 b2 b3 b4 True b6 b7 else Char b0 b1 b2 b3 b4 b5 b6 b7)"
  by (cases b0; cases b1; cases b2; cases b3; cases b4; cases b5; cases b6; cases b7;
      simp add: toLowerChar_def code_def; code_simp)

definition toLowerCase :: "string \<Rightarrow> string" where
  "toLowerCase s = map toLowerChar s"

definition trim :: "string \<Rightarrow> string" where
  "trim s = rev (dropWhile isSpace (rev (dropWhile isSpace s)))"

fun startsWith :: "string \<Rightarrow> string \<Rightarrow> bool" where
  "startsWith s [] = True"
| "startsWith [] (y # ys) = False"
| "startsWith (x # xs) (y # ys) = (x = y \<and> startsWith xs ys)"

fun includesStr :: "string \<Rightarrow> string \<Rightarrow> bool" where
  "includesStr [] t = (t = [])"
| "includesStr (x # xs) t = (startsWith (x # xs) t \<or> includesStr xs t)"

text \<open>\<open>s.replace(/[P]+/g, ' ')\<close>: every maximal run of characters of the class becomes one
  space.\<close>

function replaceRuns :: "(char \<Rightarrow> bool) \<Rightarrow> string \<Rightarrow> string" where
  "replaceRuns P [] = []"
| "replaceRuns P (x # xs) =
     (if P x then CHR '' '' # replaceRuns P (dropWhile P xs) else x # replaceRuns P xs)"
  by pat_completeness auto
termination
  by (relation "measure (\<lambda>(P, s). length s)") (auto simp: length_dropWhile_le less_Suc_eq_le)

text \<open>\<open>s.replace(/[<>]/g, '')\<close>\<close>

definition removeAngles :: "string \<Rightarrow> string" where
  "removeAngles s = filter (\<lambda>c. c \<noteq> CHR ''<'' \<and> c \<noteq> CHR ''>'') s"

text \<open>\<open>s.split(sep)\<close> for a separator that is one character of a class.\<close>

fun splitOn :: "(char \<Rightarrow> bool) \<Rightarrow> string \<Rightarrow> string list" where
  "splitOn P [] = [[]]"
| "splitOn P (x # xs) =
     (if P x then [] # splitOn P xs
      else (case splitOn P xs of [] \<Rightarrow> [[x]] | w # ws \<Rightarrow> (x # w) # ws))"

text \<open>\<open>s.split(/[P]+/)\<close>: the separator is a maximal run.\<close>

function splitRuns :: "(char \<Rightarrow> bool) \<Rightarrow> string \<Rightarrow> string list" where
  "splitRuns P [] = [[]]"
| "splitRuns P (x # xs) =
     (if P x then [] # splitRuns P (dropWhile P xs)
      else (case splitRuns P xs of [] \<Rightarrow> [[x]] | w # ws \<Rightarrow> (x # w) # ws))"
  by pat_completeness auto
termination
  by (relation "measure (\<lambda>(P, s). length s)") (auto simp: length_dropWhile_le less_Suc_eq_le)

text \<open>\<open>s.substring(a, b)\<close> for \<open>0 \<le> a \<le> b \<le> s.length\<close>, the only way the route calls it.\<close>

definition substring :: "string \<Rightarrow> nat \<Rightarrow> nat \<Rightarrow> string" where
  "substring s a b = take (b - a) (drop a s)"


section \<open>JavaScript numbers\<close>

text \<open>
  A Number is an IEEE-754 double. A finite double is kept as the rational it denotes
  (\<open>-0\<close> is identified with \<open>0\<close>: no comparison of the route tells them apart), and
  \<open>toDouble\<close> rounds an exact rational to the nearest double, ties to even, as the
  conversion of a decimal literal does: the spacing of the doubles around \<open>q\<close> is \<open>2 ^ p\<close>
  (subnormal from \<open>2 ^ - 1074\<close> on), and a rounded value of \<open>2 ^ 1024\<close> or more, that is
  one whose binary exponent is at least 1024, overflows to infinity.
\<close>

datatype number = NaN | Num rat | PosInf | NegInf

definition ipow :: "nat \<Rightarrow> int \<Rightarrow> rat" where
  "ipow b e = (if 0 \<le> e then of_nat b ^ nat e else 1 / of_nat b ^ nat (- e))"

function ilog :: "nat \<Rightarrow> nat \<Rightarrow> nat" where
  "ilog b n = (if b < 2 \<or> n < b then 0 else Suc (ilog b (n div b)))"
  by pat_completeness auto
termination
  by (relation "measure (\<lambda>(b, n). n)") auto

text \<open>\<open>floorLog b q\<close> is the integer \<open>e\<close> with \<open>b ^ e \<le> q < b ^ (e + 1)\<close>, for \<open>q > 0\<close>.\<close>

definition floorLog :: "nat \<Rightarrow> rat \<Rightarrow> int" where
  "floorLog b q =
     (let e = int (ilog b (nat (fst (quotient_of q)))) - int (ilog b (nat (snd (quotient_of q))))
      in if ipow b e \<le> q then e else e - 1)"

definition roundHalfEven :: "rat \<Rightarrow> int" where
  "roundHalfEven x =
     (let f = \<lfloor>x\<rfloor>; r = x - of_int f
      in if r < 1 / 2 then f else if 1 / 2 < r then f + 1 else if even f then f else f + 1)"

definition toDouble :: "rat \<Rightarrow> number" where
  "toDouble q =
     (if q = 0 then Num 0
      else let a = \<bar>q\<bar>;
               p = max (floorLog 2 a - 52) (- 1074);
               v = of_int (roundHalfEven (a / ipow 2 p)) * ipow 2 p
           in if 1024 \<le> floorLog 2 v then (if 0 < q then PosInf else NegInf)
              else Num (if 0 < q then v else - v))"

definition isNaN :: "number \<Rightarrow> bool" where
  "isNaN x = (x = NaN)"

text \<open>\<open>x < y\<close> on Numbers: false as soon as one side is \<open>NaN\<close>.\<close>

fun numLess :: "number \<Rightarrow> number \<Rightarrow> bool" where
  "numLess NaN y = False"
| "numLess x NaN = False"
| "numLess (Num a) (Num b) = (a < b)"
| "numLess (Num a) PosInf = True"
| "numLess (Num a) NegInf = False"
| "numLess PosInf y = False"
| "numLess NegInf NegInf = False"
| "numLess NegInf y = True"

definition digitsVal :: "string \<Rightarrow> nat" where
  "digitsVal ds = foldl (\<lambda>a c. 10 * a + (code c - 48)) 0 ds"

text \<open>
  \<open>parseFloat\<close>: leading white space is skipped, then the longest prefix that is a decimal
  literal is converted: an optional sign, then \<open>Infinity\<close> or digits with an optional
  fraction and an optional exponent (an exponent without digits is not part of the literal).
  No such prefix gives \<open>NaN\<close>.
\<close>

definition parseExponent :: "string \<Rightarrow> int" where
  "parseExponent r =
     (case r of
        [] \<Rightarrow> 0
      | e # r1 \<Rightarrow>
          if e = CHR ''e'' \<or> e = CHR ''E'' then
            (case r1 of
               [] \<Rightarrow> 0
             | sg # r2 \<Rightarrow>
                 if sg = CHR ''-'' then
                   (if takeWhile isDigit r2 = [] then 0 else - int (digitsVal (takeWhile isDigit r2)))
                 else if sg = CHR ''+'' then
                   (if takeWhile isDigit r2 = [] then 0 else int (digitsVal (takeWhile isDigit r2)))
                 else int (digitsVal (takeWhile isDigit r1)))
          else 0)"

definition parseUnsigned :: "string \<Rightarrow> bool \<Rightarrow> number" where
  "parseUnsigned t negative =
     (if startsWith t ''Infinity'' then (if negative then NegInf else PosInf)
      else let ip = takeWhile isDigit t;
               r1 = dropWhile isDigit t;
               fp = (case r1 of [] \<Rightarrow> [] | d # r \<Rightarrow> if d = CHR ''.'' then takeWhile isDigit r else []);
               r2 = (case r1 of [] \<Rightarrow> [] | d # r \<Rightarrow> if d = CHR ''.'' then dropWhile isDigit r else r1)
           in if ip = [] \<and> fp = [] then NaN
              else let q = of_nat (digitsVal (ip @ fp)) * ipow 10 (parseExponent r2 - int (length fp))
                   in toDouble (if negative then - q else q))"

definition parseFloat :: "string \<Rightarrow> number" where
  "parseFloat s =
     (case dropWhile isSpace s of
        [] \<Rightarrow> NaN
      | c # t \<Rightarrow>
          if c = CHR ''-'' then parseUnsigned t True
          else if c = CHR ''+'' then parseUnsigned t False
          else parseUnsigned (c # t) False)"

text \<open>
  \<open>parseInt\<close> on the strings the date code gives it, which the date patterns make runs of
  one to four decimal digits: the value of the leading digits, \<open>None\<close> (for \<open>NaN\<close>) when
  there is none.
\<close>

definition parseInt :: "string \<Rightarrow> int option" where
  "parseInt s =
     (let ds = takeWhile isDigit (dropWhile isSpace s)
      in if ds = [] then None else Some (int (digitsVal ds)))"

subsection \<open>Number to string\<close>

definition digitChar :: "nat \<Rightarrow> char" where
  "digitChar d = char_of (48 + d)"

function natToString :: "nat \<Rightarrow> string" where
  "natToString n = (if n < 10 then [digitChar n] else natToString (n div 10) @ [digitChar (n mod 10)])"
  by pat_completeness auto
termination
  by (relation "measure id") auto

text \<open>
  The digits of a positive double \<open>v\<close>: the least \<open>n\<close> for which an \<open>n\<close>-digit \<open>s\<close> and a
  \<open>k\<close> exist with \<open>s * 10 ^ (k - n)\<close> rounding to \<open>v\<close>, and for that \<open>n\<close> the \<open>s\<close> closest to
  \<open>v\<close>. For a given \<open>n\<close> the closest candidates are the two neighbours of
  \<open>v / 10 ^ (k - n)\<close>; seventeen digits always suffice for a double.
\<close>

definition roundTrips :: "rat \<Rightarrow> nat \<Rightarrow> nat \<Rightarrow> int \<Rightarrow> bool" where
  "roundTrips v n s k = (toDouble (of_nat s * ipow 10 (k - int n)) = Num v)"

definition digitCandidate :: "rat \<Rightarrow> int \<Rightarrow> nat \<Rightarrow> (nat \<times> int) option" where
  "digitCandidate v k0 n =
     (let x = v * ipow 10 (int n - k0);
          lo = nat \<lfloor>x\<rfloor>;
          hi = (if lo + 1 < 10 ^ n then (lo + 1, k0) else (10 ^ (n - 1), k0 + 1));
          okLo = roundTrips v n lo k0;
          okHi = roundTrips v n (fst hi) (snd hi)
      in if okLo \<and> okHi then
           (if x - of_nat lo < of_nat (lo + 1) - x then Some (lo, k0)
            else if of_nat (lo + 1) - x < x - of_nat lo then Some hi
            else if even lo then Some (lo, k0) else Some hi)
         else if okLo then Some (lo, k0)
         else if okHi then Some hi
         else None)"

fun findDigits :: "rat \<Rightarrow> int \<Rightarrow> nat \<Rightarrow> nat \<Rightarrow> nat \<times> nat \<times> int" where
  "findDigits v k0 0 n = (nat \<lfloor>v * ipow 10 (int n - k0)\<rfloor>, n, k0)"
| "findDigits v k0 (Suc fuel) n =
     (case digitCandidate v k0 n of
        Some (s, k) \<Rightarrow> (s, n, k)
      | None \<Rightarrow> findDigits v k0 fuel (Suc n))"

definition positiveToString :: "rat \<Rightarrow> string" where
  "positiveToString v =
     (case findDigits v (floorLog 10 v + 1) 17 1 of
        (s, n, k) \<Rightarrow>
          let ds = natToString s in
          if int n \<le> k \<and> k \<le> 21 then ds @ replicate (nat (k - int n)) CHR ''0''
          else if 0 < k \<and> k \<le> 21 then take (nat k) ds @ ''.'' @ drop (nat k) ds
          else if - 6 < k \<and> k \<le> 0 then ''0.'' @ replicate (nat (- k)) CHR ''0'' @ ds
          else (if n = 1 then ds else take 1 ds @ ''.'' @ drop 1 ds)
               @ ''e'' @ (if k - 1 < 0 then ''-'' else ''+'') @ natToString (nat \<bar>k - 1\<bar>))"

fun numberToString :: "number \<Rightarrow> string" where
  "numberToString NaN = ''NaN''"
| "numberToString PosInf = ''Infinity''"
| "numberToString NegInf = ''-Infinity''"
| "numberToString (Num v) =
     (if v = 0 then ''0'' else if v < 0 then ''-'' @ positiveToString (- v) else positiveToString v)"


section \<open>JavaScript dates\<close>

text \<open>
  A Date holds a time value, the milliseconds since 1970-01-01T00:00:00Z, or is invalid
  (\<open>None\<close>). What the language leaves to the host is a parameter of the model: the offset
  of the local time zone (\<open>localTZA t isUTC\<close>), \<open>Date.parse\<close> on the strings the route
  hands to \<open>new Date(string)\<close>, and the clock read by \<open>new Date()\<close>. The host also
  decodes the text runs of a PDF (\<open>decodeURIComponent\<close>, \<open>None\<close> when it throws).
\<close>

record host =
  localTZA :: "int \<Rightarrow> bool \<Rightarrow> int"
  dateParse :: "string \<Rightarrow> int option"
  now :: int
  decodeURIComponent :: "string \<Rightarrow> string option"

definition msPerDay :: int where
  "msPerDay = 86400000"

definition DayFromYear :: "int \<Rightarrow> int" where
  "DayFromYear y = 365 * (y - 1970) + (y - 1969) div 4 - (y - 1901) div 100 + (y - 1601) div 400"

definition InLeapYear :: "int \<Rightarrow> bool" where
  "InLeapYear y = (y mod 4 = 0 \<and> (y mod 100 \<noteq> 0 \<or> y mod 400 = 0))"

text \<open>The day of the year on which month \<open>m\<close> (0 to 11) starts.\<close>

definition monthStart :: "int \<Rightarrow> bool \<Rightarrow> int" where
  "monthStart m leap =
     [0, 31, 59, 90, 120, 151, 181, 212, 243, 273, 304, 334] ! nat m
     + (if leap \<and> 2 \<le> m then 1 else 0)"

definition MakeDay :: "int \<Rightarrow> int \<Rightarrow> int \<Rightarrow> int" where
  "MakeDay year month date =
     (let ym = year + month div 12; mn = month mod 12
      in DayFromYear ym + monthStart mn (InLeapYear ym) + date - 1)"

definition MakeDate :: "int \<Rightarrow> int \<Rightarrow> int" where
  "MakeDate day time = day * msPerDay + time"

definition TimeClip :: "int \<Rightarrow> int option" where
  "TimeClip t = (if 8640000000000000 < \<bar>t\<bar> then None else Some t)"

definition UTC :: "host \<Rightarrow> int \<Rightarrow> int" where
  "UTC h t = t - localTZA h t False"

definition LocalTime :: "host \<Rightarrow> int \<Rightarrow> int" where
  "LocalTime h t = t + localTZA h t True"

text \<open>\<open>new Date(year, month, day)\<close>: local midnight of that day; a year from 0 to 99 means
  1900 + year.\<close>

definition newDate :: "host \<Rightarrow> int \<Rightarrow> int \<Rightarrow> int \<Rightarrow> int option" where
  "newDate h year month date =
     (let y = (if 0 \<le> year \<and> year \<le> 99 then 1900 + year else year)
      in TimeClip (UTC h (MakeDate (MakeDay y month date) 0)))"

text \<open>The calendar date (year, month 1 to 12, day of the month) of a day number.\<close>

definition civilFromDays :: "int \<Rightarrow> int \<times> int \<times> int" where
  "civilFromDays day =
     (let z = day + 719468;
          era = z div 146097;
          doe = z - era * 146097;
          yoe = (doe - doe div 1460 + doe div 36524 - doe div 146096) div 365;
          doy = doe - (365 * yoe + yoe div 4 - yoe div 100);
          mp = (5 * doy + 2) div 153;
          d = doy - (153 * mp + 2) div 5 + 1;
          m = (if mp < 10 then mp + 3 else mp - 9)
      in (if m \<le> 2 then yoe + era * 400 + 1 else yoe + era * 400, m, d))"

definition YearFromTime :: "int \<Rightarrow> int" where
  "YearFromTime t = fst (civilFromDays (t div msPerDay))"

definition getFullYear :: "host \<Rightarrow> int \<Rightarrow> int" where
  "getFullYear h t = YearFromTime (LocalTime h t)"

definition pad :: "nat \<Rightarrow> nat \<Rightarrow> string" where
  "pad w n = replicate (w - length (natToString n)) CHR ''0'' @ natToString n"

text \<open>\<open>toISOString\<close> of a valid time value: \<open>YYYY-MM-DDTHH:mm:ss.sssZ\<close> in UTC, the year
  with a sign and six digits outside 0 to 9999.\<close>

definition toISOString :: "int \<Rightarrow> string" where
  "toISOString t =
     (case civilFromDays (t div msPerDay) of
        (y, m, d) \<Rightarrow>
          let ms = t mod msPerDay in
          (if 0 \<le> y \<and> y \<le> 9999 then pad 4 (nat y)
           else (if y < 0 then ''-'' else ''+'') @ pad 6 (nat \<bar>y\<bar>))
          @ ''-'' @ pad 2 (nat m) @ ''-'' @ pad 2 (nat d)
          @ ''T'' @ pad 2 (nat (ms div 3600000))
          @ '':'' @ pad 2 (nat (ms div 60000 mod 60))
          @ '':'' @ pad 2 (nat (ms div 1000 mod 60))
          @ ''.'' @ pad 3 (nat (ms mod 1000)) @ ''Z'')"

section \<open>Regular expressions\<close>

text \<open>
  The patterns of the route are written as syntax trees, and matched as the language
  defines it: a backtracking matcher in continuation-passing style, which tries the
  alternatives of a disjunction from left to right and the iterations of a quantifier
  greedily or lazily, and takes the first way through that lets the rest of the pattern
  match. A matcher works on the rest of the input; \<open>n\<close> is the length of the whole input,
  so \<open>^\<close> holds where the rest has length \<open>n\<close>. Captures are a list of group number and
  captured text; a group that took no part is absent (\<open>undefined\<close>).
\<close>

datatype re =
    Chr char
  | Cls bool "char \<Rightarrow> bool"
  | Bol
  | Eol
  | Eps
  | Seq re re
  | Alt re re
  | Grp nat re
  | Rep nat "nat option" bool re

type_synonym captures = "(nat \<times> string) list"
type_synonym mstate = "string \<times> captures"
type_synonym cont = "string \<Rightarrow> captures \<Rightarrow> mstate option"

text \<open>With the \<open>i\<close> flag two characters match when their upper-case forms agree, and a
  class contains a character when it contains one of its case variants.\<close>

definition chrMatches :: "bool \<Rightarrow> char \<Rightarrow> char \<Rightarrow> bool" where
  "chrMatches ic x y = (if ic then toUpperChar x = toUpperChar y else x = y)"

definition clsMatches :: "bool \<Rightarrow> bool \<Rightarrow> (char \<Rightarrow> bool) \<Rightarrow> char \<Rightarrow> bool" where
  "clsMatches ic negated P y =
     (if negated
      then \<not> (if ic then P y \<or> P (toUpperChar y) \<or> P (toLowerChar y) else P y)
      else (if ic then P y \<or> P (toUpperChar y) \<or> P (toLowerChar y) else P y))"

fun groupsOf :: "re \<Rightarrow> nat list" where
  "groupsOf (Seq a b) = groupsOf a @ groupsOf b"
| "groupsOf (Alt a b) = groupsOf a @ groupsOf b"
| "groupsOf (Grp i r) = i # groupsOf r"
| "groupsOf (Rep mn mx g r) = groupsOf r"
| "groupsOf (Chr x) = []"
| "groupsOf (Cls negated P) = []"
| "groupsOf Bol = []"
| "groupsOf Eol = []"
| "groupsOf Eps = []"

definition clearCaps :: "nat list \<Rightarrow> captures \<Rightarrow> captures" where
  "clearCaps gs c = filter (\<lambda>p. fst p \<notin> set gs) c"

fun decMax :: "nat option \<Rightarrow> nat option" where
  "decMax None = None"
| "decMax (Some j) = Some (j - 1)"

text \<open>
  The quantifier \<open>{mn,mx}\<close> (\<open>mx = None\<close>: unbounded; \<open>g\<close>: greedy) over a matcher \<open>mr\<close> of
  its body. Every iteration starts with the captures of the body's groups cleared. Once
  the minimum is reached, an iteration that consumed nothing is rejected.
\<close>

function rep :: "(cont \<Rightarrow> cont) \<Rightarrow> nat list \<Rightarrow> nat \<Rightarrow> nat option \<Rightarrow> bool \<Rightarrow> cont \<Rightarrow> cont" where
  "rep mr gs mn mx g k rest c =
     (if mx = Some 0 then k rest c
      else if 0 < mn then
        mr (\<lambda>rest' c'. rep mr gs (mn - 1) (decMax mx) g k rest' c') rest (clearCaps gs c)
      else if g then
        (case mr (\<lambda>rest' c'. if length rest' < length rest
                               then rep mr gs 0 (decMax mx) g k rest' c' else None)
                 rest (clearCaps gs c) of
           Some r \<Rightarrow> Some r
         | None \<Rightarrow> k rest c)
      else
        (case k rest c of
           Some r \<Rightarrow> Some r
         | None \<Rightarrow> mr (\<lambda>rest' c'. if length rest' < length rest
                                      then rep mr gs 0 (decMax mx) g k rest' c' else None)
                        rest (clearCaps gs c)))"
  by pat_completeness auto
termination
  by (relation "measures [\<lambda>(mr, gs, mn, mx, g, k, rest, c). mn,
                          \<lambda>(mr, gs, mn, mx, g, k, rest, c). length rest]") auto

fun m :: "bool \<Rightarrow> nat \<Rightarrow> re \<Rightarrow> cont \<Rightarrow> cont" where
  "m ic n (Chr x) k rest c =
     (case rest of [] \<Rightarrow> None | y # ys \<Rightarrow> if chrMatches ic x y then k ys c else None)"
| "m ic n (Cls negated P) k rest c =
     (case rest of [] \<Rightarrow> None | y # ys \<Rightarrow> if clsMatches ic negated P y then k ys c else None)"
| "m ic n Bol k rest c = (if length rest = n then k rest c else None)"
| "m ic n Eol k rest c = (if rest = [] then k rest c else None)"
| "m ic n Eps k rest c = k rest c"
| "m ic n (Seq a b) k rest c = m ic n a (m ic n b k) rest c"
| "m ic n (Alt a b) k rest c =
     (case m ic n a k rest c of Some r \<Rightarrow> Some r | None \<Rightarrow> m ic n b k rest c)"
| "m ic n (Grp i r) k rest c =
     m ic n r (\<lambda>rest' c'. k rest' ((i, take (length rest - length rest') rest) # clearCaps [i] c'))
       rest c"
| "m ic n (Rep mn mx g r) k rest c = rep (m ic n r) (groupsOf r) mn mx g k rest c"

text \<open>A pattern with its \<open>i\<close> flag.\<close>

record regexp =
  ignoreCase :: bool
  tree :: re

definition matchAt :: "regexp \<Rightarrow> nat \<Rightarrow> string \<Rightarrow> mstate option" where
  "matchAt p n rest = m (ignoreCase p) n (tree p) (\<lambda>rest' c'. Some (rest', c')) rest []"

text \<open>A successful match: where it starts, the matched text (\<open>match[0]\<close>), the captures,
  and the input after the match (its length gives \<open>lastIndex\<close>).\<close>

record jsmatch =
  index :: nat
  matched :: string
  caps :: captures
  after :: string

definition mkMatch :: "nat \<Rightarrow> string \<Rightarrow> mstate \<Rightarrow> jsmatch" where
  "mkMatch n rest st =
     \<lparr>index = n - length rest,
      matched = take (length rest - length (fst st)) rest,
      caps = snd st,
      after = fst st\<rparr>"

text \<open>The search of \<open>exec\<close>: the first position, from the current one on, at which the
  pattern matches.\<close>

fun searchFrom :: "regexp \<Rightarrow> nat \<Rightarrow> string \<Rightarrow> jsmatch option" where
  "searchFrom p n [] =
     (case matchAt p n [] of Some st \<Rightarrow> Some (mkMatch n [] st) | None \<Rightarrow> None)"
| "searchFrom p n (x # xs) =
     (case matchAt p n (x # xs) of
        Some st \<Rightarrow> Some (mkMatch n (x # xs) st)
      | None \<Rightarrow> searchFrom p n xs)"

text \<open>\<open>text.match(p)\<close> and \<open>p.test(text)\<close> for a pattern without the \<open>g\<close> flag.\<close>

definition matchFirst :: "regexp \<Rightarrow> string \<Rightarrow> jsmatch option" where
  "matchFirst p s = searchFrom p (length s) s"

definition test :: "regexp \<Rightarrow> string \<Rightarrow> bool" where
  "test p s = (matchFirst p s \<noteq> None)"

text \<open>\<open>match[i]\<close>: \<open>None\<close> is \<open>undefined\<close>.\<close>

definition group :: "jsmatch \<Rightarrow> nat \<Rightarrow> string option" where
  "group mt i = map_of (caps mt) i"

subsection \<open>Writing patterns\<close>

definition lit :: "string \<Rightarrow> re" where
  "lit s = foldr (\<lambda>c r. Seq (Chr c) r) s Eps"

fun seqs :: "re list \<Rightarrow> re" where
  "seqs [] = Eps"
| "seqs [r] = r"
| "seqs (r # rs) = Seq r (seqs rs)"

fun alts :: "re list \<Rightarrow> re" where
  "alts [] = Eps"
| "alts [r] = r"
| "alts (r # rs) = Alt r (alts rs)"

definition star :: "re \<Rightarrow> re" where
  "star r = Rep 0 None True r"

definition plus :: "re \<Rightarrow> re" where
  "plus r = Rep 1 None True r"

definition opt :: "re \<Rightarrow> re" where
  "opt r = Rep 0 (Some 1) True r"

definition lazyStar :: "re \<Rightarrow> re" where
  "lazyStar r = Rep 0 None False r"

definition times :: "nat \<Rightarrow> nat \<Rightarrow> re \<Rightarrow> re" where
  "times lo hi r = Rep lo (Some hi) True r"

definition cls :: "(char \<Rightarrow> bool) \<Rightarrow> re" where
  "cls P = Cls False P"

definition oneOf :: "string \<Rightarrow> re" where
  "oneOf s = Cls False (\<lambda>c. c \<in> set s)"


definition digit :: re where
  "digit = Cls False isDigit"

definition ws :: re where
  "ws = Cls False isSpace"

definition letter :: re where
  "letter = Cls False isAlpha"

definition newline :: char where
  "newline = CHR 0x0A"

section \<open>What a match says about the input\<close>

text \<open>
  To reason about every input at once, the ways a pattern can match are also given as a
  relation: \<open>sem ic n r s s'\<close> says that \<open>r\<close> can take the matcher from the state \<open>s\<close> (rest
  of the input and captures) to \<open>s'\<close>. It leaves out the order in which the matcher tries
  the ways, so it only bounds what the matcher does: whenever the matcher succeeds, it
  has gone one of these ways (\<open>m_sound\<close>).
\<close>

declare rep.simps [simp del]

inductive sem :: "bool \<Rightarrow> nat \<Rightarrow> re \<Rightarrow> mstate \<Rightarrow> mstate \<Rightarrow> bool" for ic :: bool and n :: nat where
  semChr: "chrMatches ic x y \<Longrightarrow> sem ic n (Chr x) (y # ys, c) (ys, c)"
| semCls: "clsMatches ic negated P y \<Longrightarrow> sem ic n (Cls negated P) (y # ys, c) (ys, c)"
| semBol: "length rest = n \<Longrightarrow> sem ic n Bol (rest, c) (rest, c)"
| semEol: "sem ic n Eol ([], c) ([], c)"
| semEps: "sem ic n Eps s s"
| semSeq: "sem ic n a s1 s2 \<Longrightarrow> sem ic n b s2 s3 \<Longrightarrow> sem ic n (Seq a b) s1 s3"
| semAltL: "sem ic n a s1 s2 \<Longrightarrow> sem ic n (Alt a b) s1 s2"
| semAltR: "sem ic n b s1 s2 \<Longrightarrow> sem ic n (Alt a b) s1 s2"
| semGrp: "sem ic n r (rest, c) (rest', c') \<Longrightarrow>
     sem ic n (Grp i r) (rest, c) (rest', (i, take (length rest - length rest') rest) # clearCaps [i] c')"
| semRepStop: "mn = 0 \<or> mx = Some 0 \<Longrightarrow> sem ic n (Rep mn mx g r) s s"
| semRepIter: "mx \<noteq> Some 0 \<Longrightarrow> sem ic n r (rest, clearCaps (groupsOf r) c) s2 \<Longrightarrow>
     sem ic n (Rep (mn - 1) (decMax mx) g r) s2 s3 \<Longrightarrow> sem ic n (Rep mn mx g r) (rest, c) s3"

lemma rep_sound:
  "(\<And>k rest c res. mr k rest c = Some res \<Longrightarrow>
        \<exists>s. sem ic n r (rest, c) s \<and> k (fst s) (snd s) = Some res) \<Longrightarrow>
   gs = groupsOf r \<Longrightarrow>
   rep mr gs mn mx g k rest c = Some res \<Longrightarrow>
   \<exists>s. sem ic n (Rep mn mx g r) (rest, c) s \<and> k (fst s) (snd s) = Some res"
proof (induction mr gs mn mx g k rest c arbitrary: res rule: rep.induct)
  case (1 mr gs mn mx g k rest c)
  note body = "1.prems"(1) and gs = "1.prems"(2) and run = "1.prems"(3)
  have stop: "k rest c = Some res \<Longrightarrow> mn = 0 \<or> mx = Some 0 \<Longrightarrow> ?case"
    by (rule exI[of _ "(rest, c)"]) (simp add: sem.semRepStop)
  have iter: "?case"
    if nz: "mx \<noteq> Some 0"
    and inner: "mr k' rest (clearCaps gs c) = Some res"
    and next_ok: "\<And>rest' c'. k' rest' c' = Some res \<Longrightarrow>
            \<exists>s. sem ic n (Rep (mn - 1) (decMax mx) g r) (rest', c') s \<and> k (fst s) (snd s) = Some res"
    for k'
  proof -
    from body[OF inner] obtain s2 where s2: "sem ic n r (rest, clearCaps gs c) s2"
      and k2: "k' (fst s2) (snd s2) = Some res" by blast
    from next_ok[OF k2] obtain s3 where
      s3: "sem ic n (Rep (mn - 1) (decMax mx) g r) (fst s2, snd s2) s3"
      and k3: "k (fst s3) (snd s3) = Some res" by blast
    from s2 s3 nz have "sem ic n (Rep mn mx g r) (rest, c) s3"
      unfolding gs by (auto intro: sem.semRepIter)
    with k3 show ?thesis by blast
  qed
  show ?case
  proof (cases "mx = Some 0")
    case True
    with run have "k rest c = Some res" by (subst (asm) rep.simps) simp
    then show ?thesis by (rule stop) (simp add: True)
  next
    case nz: False
    show ?thesis
    proof (cases "0 < mn")
      case True
      with nz run have inner:
        "mr (\<lambda>rest' c'. rep mr gs (mn - 1) (decMax mx) g k rest' c') rest (clearCaps gs c) = Some res"
        by (subst (asm) rep.simps) simp
      show ?thesis
        by (rule iter[OF nz inner]) (rule "1.IH"(1)[OF nz True body gs])
    next
      case mn0: False
      let ?k' = "\<lambda>rest' c'. if length rest' < length rest
                   then rep mr gs 0 (decMax mx) g k rest' c' else None"
      have next_ok: "\<exists>s. sem ic n (Rep (mn - 1) (decMax mx) g r) (rest', c') s \<and> k (fst s) (snd s) = Some res"
        if "?k' rest' c' = Some res" "g \<or> k rest c = None" for rest' c'
      proof -
        from that(1) have lt: "length rest' < length rest"
          and r: "rep mr gs 0 (decMax mx) g k rest' c' = Some res"
          by (auto split: if_splits)
        show ?thesis
        proof (cases g)
          case True
          from "1.IH"(2)[OF nz mn0 True lt body gs r] mn0 show ?thesis by simp
        next
          case False
          with that(2) have kn: "k rest c = None" by simp
          from "1.IH"(3)[OF nz mn0 False kn lt body gs r] mn0 show ?thesis by simp
        qed
      qed
      from run nz mn0 consider
          (viaIter) "mr ?k' rest (clearCaps gs c) = Some res" "g \<or> k rest c = None"
        | (viaStop) "k rest c = Some res"
        by (subst (asm) rep.simps) (auto split: if_splits option.splits)
      then show ?thesis
      proof cases
        case viaIter
        show ?thesis by (rule iter[OF nz viaIter(1)]) (rule next_ok[OF _ viaIter(2)])
      next
        case viaStop
        then show ?thesis by (rule stop) (use mn0 in simp)
      qed
    qed
  qed
qed

lemma m_sound:
  "m ic n r k rest c = Some res \<Longrightarrow>
   \<exists>s. sem ic n r (rest, c) s \<and> k (fst s) (snd s) = Some res"
proof (induction r arbitrary: k rest c res)
  case (Chr x)
  then show ?case by (cases rest) (auto split: if_splits intro: sem.semChr)
next
  case (Cls negated P)
  then show ?case by (cases rest) (auto split: if_splits intro: sem.semCls)
next
  case Bol
  then show ?case by (auto split: if_splits intro: sem.semBol)
next
  case Eol
  then show ?case by (auto split: if_splits intro: sem.semEol)
next
  case Eps
  then show ?case by (auto intro: sem.semEps)
next
  case (Seq a b)
  from Seq.prems have "m ic n a (m ic n b k) rest c = Some res" by simp
  from Seq.IH(1)[OF this] obtain s2 where a: "sem ic n a (rest, c) s2"
    and "m ic n b k (fst s2) (snd s2) = Some res" by blast
  from Seq.IH(2)[OF this(2)] obtain s3 where "sem ic n b (fst s2, snd s2) s3"
    and k: "k (fst s3) (snd s3) = Some res" by blast
  with a have "sem ic n (Seq a b) (rest, c) s3" by (auto intro: sem.semSeq)
  with k show ?case by blast
next
  case (Alt a b)
  from Alt.prems consider "m ic n a k rest c = Some res" | "m ic n b k rest c = Some res"
    by (auto split: option.splits)
  then show ?case
  proof cases
    case 1
    from Alt.IH(1)[OF 1] show ?thesis by (auto intro: sem.semAltL)
  next
    case 2
    from Alt.IH(2)[OF 2] show ?thesis by (auto intro: sem.semAltR)
  qed
next
  case (Grp i r)
  let ?k = "\<lambda>rest' c'. k rest' ((i, take (length rest - length rest') rest) # clearCaps [i] c')"
  from Grp.prems have "m ic n r ?k rest c = Some res" by simp
  from Grp.IH[OF this] obtain s where s: "sem ic n r (rest, c) s"
    and k: "?k (fst s) (snd s) = Some res" by blast
  from s have "sem ic n (Grp i r) (rest, c)
      (fst s, (i, take (length rest - length (fst s)) rest) # clearCaps [i] (snd s))"
    by (cases s) (auto intro: sem.semGrp)
  with k show ?case by (intro exI[of _ "(fst s, (i, take (length rest - length (fst s)) rest) # clearCaps [i] (snd s))"]) simp
next
  case (Rep mn mx g r)
  from Rep.prems have run: "rep (m ic n r) (groupsOf r) mn mx g k rest c = Some res" by simp
  show ?case
    by (rule rep_sound[where mr = "m ic n r" and gs = "groupsOf r"]) (use Rep.IH run in auto)
qed

section \<open>The date extractor\<close>

text \<open>\<open>/Collection Date, Time\s*\n\s*(\d{2}-[A-Za-z]{3}-\d{4})/i\<close>\<close>

definition collectionDatePattern :: regexp where
  "collectionDatePattern =
     \<lparr>ignoreCase = True,
      tree = seqs [lit ''Collection Date, Time'', star ws, Chr newline, star ws,
                   Grp 1 (seqs [times 2 2 digit, Chr CHR ''-'', times 3 3 letter, Chr CHR ''-'',
                                times 4 4 digit])]\<rparr>"

text \<open>The parts the date patterns share:
  \<open>(?:test|collection|sample|report|drawn|collected|date)[^a-zA-Z0-9](?:date|time|on|at)?[^a-zA-Z0-9]*?\<close>,
  \<open>\d{1,2}[\/\-\.]\d{1,2}[\/\-\.]\d{2,4}\<close>, \<open>\d{4}-\d{2}-\d{2}\<close> and
  \<open>(?:Jan|Feb|...|Dec)\<close>.\<close>

definition nonAlnum :: re where
  "nonAlnum = Cls True (\<lambda>c. isAlpha c \<or> isDigit c)"

definition dateLabel :: re where
  "dateLabel =
     seqs [alts (map lit [''test'', ''collection'', ''sample'', ''report'', ''drawn'',
                          ''collected'', ''date'']),
           nonAlnum,
           opt (alts (map lit [''date'', ''time'', ''on'', ''at''])),
           lazyStar nonAlnum]"

definition numericDate :: re where
  "numericDate =
     seqs [times 1 2 digit, oneOf ''/-.'', times 1 2 digit, oneOf ''/-.'', times 2 4 digit]"

definition isoDate :: re where
  "isoDate = seqs [times 4 4 digit, Chr CHR ''-'', times 2 2 digit, Chr CHR ''-'', times 2 2 digit]"

definition monthName :: re where
  "monthName =
     alts (map lit [''Jan'', ''Feb'', ''Mar'', ''Apr'', ''May'', ''Jun'', ''Jul'', ''Aug'',
                    ''Sep'', ''Oct'', ''Nov'', ''Dec''])"

definition lowerLetter :: re where
  "lowerLetter = Cls False isLower"

text \<open>\<open>datePatterns\<close>, in the order of the array.\<close>

definition datePatterns :: "regexp list" where
  "datePatterns =
     [\<lparr>ignoreCase = True,
       tree = Seq dateLabel
                (Grp 1 (Seq numericDate
                   (opt (seqs [star ws, opt (lit ''at''), star ws, times 1 2 digit, Chr CHR '':'',
                               times 2 2 digit,
                               opt (seqs [star ws, oneOf ''AP'', Chr CHR ''M''])]))))\<rparr>,
      \<lparr>ignoreCase = True,
       tree = Seq dateLabel
                (Alt (Grp 1 (seqs [times 1 2 digit, plus ws, monthName, star lowerLetter, plus ws,
                                   times 2 4 digit]))
                     (Grp 2 (seqs [monthName, star lowerLetter, plus ws, times 1 2 digit,
                                   opt (alts (map lit [''st'', ''nd'', ''rd'', ''th''])),
                                   opt (Chr CHR '',''), plus ws, times 2 4 digit])))\<rparr>,
      \<lparr>ignoreCase = True, tree = Seq dateLabel (Grp 1 isoDate)\<rparr>,
      \<lparr>ignoreCase = False, tree = seqs [Alt Bol ws, Grp 1 numericDate, Alt ws Eol]\<rparr>,
      \<lparr>ignoreCase = False, tree = seqs [Alt Bol ws, Grp 1 isoDate, Alt ws Eol]\<rparr>,
      \<lparr>ignoreCase = True,
       tree = seqs [Alt (seqs [lit ''report'', plus ws, lit ''generated'']) (lit ''printed''),
                    opt (Seq (plus ws) (lit ''on'')), Chr CHR '':'', star ws, Grp 1 numericDate]\<rparr>,
      \<lparr>ignoreCase = True,
       tree = seqs [Alt (lit ''ordered'') (lit ''completed''),
                    opt (Seq (plus ws) (lit ''on'')), Chr CHR '':'', star ws, Grp 1 numericDate]\<rparr>]"

text \<open>\<open>/^\d{4}-\d{2}-\d{2}$/\<close> and \<open>/^\d{1,2}[\/\-\.]\d{1,2}[\/\-\.]\d{2,4}$/\<close>\<close>

definition isoShape :: regexp where
  "isoShape = \<lparr>ignoreCase = False, tree = seqs [Bol, isoDate, Eol]\<rparr>"

definition numericShape :: regexp where
  "numericShape = \<lparr>ignoreCase = False, tree = seqs [Bol, numericDate, Eol]\<rparr>"

definition monthMap :: "string \<Rightarrow> int option" where
  "monthMap = map_of [(''Jan'', 0), (''Feb'', 1), (''Mar'', 2), (''Apr'', 3), (''May'', 4),
                      (''Jun'', 5), (''Jul'', 6), (''Aug'', 7), (''Sep'', 8), (''Oct'', 9),
                      (''Nov'', 10), (''Dec'', 11)]"

text \<open>\<open>new Date('2023-06-15T00:00:00.000Z')\<close>: the time value that date-time string
  denotes.\<close>

definition fallbackDate :: int where
  "fallbackDate = 1686787200000"

text \<open>
  The first step of \<open>extractTestDate\<close>: the \<open>Collection Date, Time\<close> label. \<open>Some\<close> is the
  value returned at once; \<open>None\<close> means the step fell through to the general patterns (no
  match, a month that is not in \<open>monthMap\<close>, or \<open>toISOString\<close> throwing on an invalid
  date, which the \<open>catch\<close> swallows).
\<close>

definition collectionDate :: "host \<Rightarrow> string \<Rightarrow> string option" where
  "collectionDate h text =
     (case matchFirst collectionDatePattern text of
        None \<Rightarrow> None
      | Some collectionMatch \<Rightarrow>
          (case group collectionMatch 1 of
             None \<Rightarrow> None
           | Some g \<Rightarrow>
               if g = [] then None
               else let parts = splitOn (\<lambda>c. c = CHR ''-'') (trim g) in
                 if length parts = 3 then
                   (case parseInt (parts ! 0) of
                      None \<Rightarrow> None
                    | Some day \<Rightarrow>
                        (case monthMap (parts ! 1) of
                           None \<Rightarrow> None
                         | Some month \<Rightarrow>
                             (case parseInt (parts ! 2) of
                                None \<Rightarrow> None
                              | Some year \<Rightarrow>
                                  (case newDate h year month day of
                                     None \<Rightarrow> None
                                   | Some parsedDate \<Rightarrow> Some (toISOString parsedDate)))))
                 else None))"

text \<open>\<open>match.find((group, index) => index > 0 && group)\<close>: the first captured group that is
  defined and not empty.\<close>

fun firstGroup :: "jsmatch \<Rightarrow> nat list \<Rightarrow> string option" where
  "firstGroup mt [] = None"
| "firstGroup mt (i # is) =
     (case group mt i of
        None \<Rightarrow> firstGroup mt is
      | Some g \<Rightarrow> if g = [] then firstGroup mt is else Some g)"

text \<open>
  The Date parsed from the date string of a general pattern: an ISO-shaped string and a
  free-form string go to \<open>new Date(string)\<close>, a numeric one is read as month, day, year
  with a two-digit year below 50 in the 2000s and from 50 on in the 1900s.
\<close>

definition parseNumericDate :: "host \<Rightarrow> string list \<Rightarrow> int option" where
  "parseNumericDate h parts =
     (case parseInt (parts ! 2) of
        None \<Rightarrow> None
      | Some y \<Rightarrow>
          (case parseInt (parts ! 0) of
             None \<Rightarrow> None
           | Some mo \<Rightarrow>
               (case parseInt (parts ! 1) of
                  None \<Rightarrow> None
                | Some day \<Rightarrow>
                    newDate h (if y < 100 then y + (if y < 50 then 2000 else 1900) else y)
                      (mo - 1) day)))"

text \<open>One round of the loop over \<open>datePatterns\<close>: \<open>Some\<close> is the value returned, \<open>None\<close>
  means the loop goes on to the next pattern.\<close>

definition tryPattern :: "host \<Rightarrow> string \<Rightarrow> regexp \<Rightarrow> string option" where
  "tryPattern h text p =
     (case matchFirst p text of
        None \<Rightarrow> None
      | Some mt \<Rightarrow>
          (case firstGroup mt (groupsOf (tree p)) of
             None \<Rightarrow> None
           | Some dateGroup \<Rightarrow>
               let dateStr = trim dateGroup;
                   parsedDate =
                     (if test isoShape dateStr then dateParse h dateStr
                      else if test numericShape dateStr then
                        (let parts = splitOn (\<lambda>c. c \<in> set ''/-.'') dateStr
                         in if length parts = 3 then parseNumericDate h parts else None)
                      else dateParse h dateStr)
               in (case parsedDate of
                     None \<Rightarrow> None
                   | Some t \<Rightarrow> if 1900 < getFullYear h t then Some (toISOString t) else None)))"

fun firstSome :: "('a \<Rightarrow> 'b option) \<Rightarrow> 'a list \<Rightarrow> 'b option" where
  "firstSome f [] = None"
| "firstSome f (x # xs) = (case f x of Some y \<Rightarrow> Some y | None \<Rightarrow> firstSome f xs)"

text \<open>\<open>extractTestDate\<close>, declared \<open>string | null\<close>: \<open>None\<close> would be \<open>null\<close>.\<close>

definition extractTestDate :: "host \<Rightarrow> string \<Rightarrow> string option" where
  "extractTestDate h text =
     (case collectionDate h text of
        Some stamp \<Rightarrow> Some stamp
      | None \<Rightarrow>
          (case firstSome (tryPattern h text) datePatterns of
             Some stamp \<Rightarrow> Some stamp
           | None \<Rightarrow> Some (toISOString fallbackDate)))"


section \<open>The biomarker dictionary\<close>

text \<open>
  \<open>BIOMARKER_DEFINITIONS\<close>, in the order of the object literal (the order of
  \<open>Object.keys\<close>): name, units, and the decimal literals of \<open>range.min\<close> and \<open>range.max\<close>.
  The Number a literal denotes is its \<open>toDouble\<close>; \<open>rangeOf\<close> reads the range.
\<close>

record range =
  rmin :: number
  rmax :: number

record biomarkerDefinition =
  units :: string
  minLiteral :: rat
  maxLiteral :: rat

definition rangeOf :: "biomarkerDefinition \<Rightarrow> range" where
  "rangeOf d = \<lparr>rmin = toDouble (minLiteral d), rmax = toDouble (maxLiteral d)\<rparr>"

definition entry :: "string \<Rightarrow> string \<Rightarrow> rat \<Rightarrow> rat \<Rightarrow> string \<times> biomarkerDefinition" where
  "entry k u lo hi = (k, \<lparr>units = u, minLiteral = lo, maxLiteral = hi\<rparr>)"

definition micro :: char where
  "micro = CHR 0xB5"

definition superscriptTwo :: char where
  "superscriptTwo = CHR 0xB2"

definition BIOMARKER_DEFINITIONS :: "(string \<times> biomarkerDefinition) list" where
  "BIOMARKER_DEFINITIONS =
     [entry ''Hemoglobin'' ''g/dL'' 12 17,
      entry ''Hematocrit'' ''%'' 36 52,
      entry ''Mean Cell Hemoglobin'' ''pg'' 27 33,
      entry ''Mean Cell Hemoglobin Concentration'' ''g/dL'' 32 36,
      entry ''Mean Cell Volume'' ''fL'' 80 100,
      entry ''Red Blood Cells'' ''x10^12/L'' (42 / 10) (58 / 10),
      entry ''Basophils'' ''x10^9/L'' 0 (2 / 10),
      entry ''Eosinophils'' ''x10^9/L'' 0 (5 / 10),
      entry ''Lymphocytes'' ''x10^9/L'' 1 4,
      entry ''Monocytes'' ''x10^9/L'' (2 / 10) (8 / 10),
      entry ''Neutrophils'' ''x10^9/L'' 2 7,
      entry ''White Blood Cells'' ''x10^9/L'' 4 11,
      entry ''Platelets'' ''x10^9/L'' 150 450,
      entry ''Ferritin'' ''ng/mL'' 20 250,
      entry ''Total Cholesterol'' ''mg/dL'' 125 200,
      entry ''LDL Cholesterol'' ''mg/dL'' 0 100,
      entry ''HDL Cholesterol'' ''mg/dL'' 40 60,
      entry ''Cholesterol'' ''mg/dL'' 125 200,
      entry ''HDL'' ''mg/dL'' 40 60,
      entry ''LDL'' ''mg/dL'' 0 100,
      entry ''Triglycerides'' ''mg/dL'' 0 150,
      entry ''High Sensitivity C-Reactive Protein (hsCRP)'' ''mg/L'' 0 3,
      entry ''Creatine Kinase (CK-NAC)'' ''U/L'' 30 200,
      entry ''Glucose'' ''mg/dL'' 70 100,
      entry ''HbA1c'' ''%'' 4 (57 / 10),
      entry ''Albumin'' ''g/dL'' (35 / 10) 5,
      entry ''Calcium (adjusted)'' ''mg/dL'' (85 / 10) (105 / 10),
      entry ''Creatinine'' ''mg/dL'' (6 / 10) (12 / 10),
      entry ''Cystatin C'' ''mg/L'' (5 / 10) 1,
      entry ''Estimated Glomerular Filtration Rate (eGFR)''
        (''mL/min/1.73m'' @ [superscriptTwo]) 90 120,
      entry ''Magnesium'' ''mg/dL'' (17 / 10) (23 / 10),
      entry ''PotassiumCT'' ''mmol/L'' (35 / 10) (52 / 10),
      entry ''SodiumCT'' ''mmol/L'' 135 145,
      entry ''Urea (BUN)'' ''mg/dL'' 7 20,
      entry ''Alanine Aminotransferase (ALT)'' ''U/L'' 7 55,
      entry ''Alkaline Phosphatase (ALP)'' ''U/L'' 44 147,
      entry ''Aspartate Aminotransferase (AST/GOT)'' ''U/L'' 8 48,
      entry ''Copper'' (micro # ''g/dL'') 70 140,
      entry ''Gamma-Glutamyltransferase (GGT)'' ''U/L'' 8 61,
      entry ''Total Bilirubin'' ''mg/dL'' (1 / 10) (12 / 10),
      entry ''Folic acid/Folate'' ''ng/mL'' 3 17,
      entry ''Vitamin C deficiencyRH'' ''mg/L'' (4 / 10) 2,
      entry ''Vitamin B12'' ''pg/mL'' 200 900,
      entry ''Vitamin D, 25 Hydroxy'' ''ng/mL'' 30 100,
      entry ''ZincRH'' (micro # ''mol/L'') 10 20,
      entry ''Immunoglobulin E (IgE)'' ''IU/mL'' 0 100,
      entry ''Free Thyroxine (FT4)'' ''ng/dL'' (8 / 10) (18 / 10),
      entry ''Free Tri-iodothyronine (FT3)'' ''pg/mL'' (23 / 10) (42 / 10),
      entry ''Thyroid Stimulating Hormone (TSH)'' (micro # ''IU/mL'') (4 / 10) 4,
      entry ''Sex Hormone Binding Globulin (SHBG)'' ''nmol/L'' 10 80,
      entry ''Testosterone, Total'' ''ng/dL'' 280 1100,
      entry ''Estradiol'' ''pg/mL'' 10 50,
      entry ''Total Prostate Specific Antigen (TPSA)'' ''ng/mL'' 0 4]"

text \<open>The test both \<open>isBiomarkerName\<close> and the first pass apply to a name and a dictionary
  key: equal in lower case, or one contained in the other.\<close>

definition matchesKnown :: "string \<Rightarrow> string \<Rightarrow> bool" where
  "matchesKnown name knownName =
     (toLowerCase name = toLowerCase knownName
      \<or> includesStr (toLowerCase name) (toLowerCase knownName)
      \<or> includesStr (toLowerCase knownName) (toLowerCase name))"

section \<open>The result and its state\<close>

datatype error = SyntaxError | TypeError

text \<open>What running a piece of the route comes to: a value, an exception, or a loop that
  never ends.\<close>

datatype 'a outcome = Returns 'a | Throws error | Diverges

record biomarker =
  bmValue :: number
  bmUnit :: "string option"
  referenceRange :: "range option"
  orderIndex :: nat

record potentialMatch =
  pmName :: string
  pmValue :: number
  pmUnit :: "string option"
  pmPosition :: nat

text \<open>
  The locals the closures of \<open>extractAllBiomarkers\<close> share. \<open>biomarkers\<close> is a plain object
  whose keys are names (they start with a letter, so the keys keep their insertion order):
  an association list. Reading \<open>biomarkers[name]\<close> also finds the members the object
  inherits from \<open>Object.prototype\<close>, all of them truthy.
\<close>

record state =
  biomarkers :: "(string \<times> biomarker) list"
  biomarkerPositions :: "(string \<times> nat) list"
  originalOrder :: "string list"

definition objectPrototypeKeys :: "string list" where
  "objectPrototypeKeys =
     [''constructor'', ''hasOwnProperty'', ''isPrototypeOf'', ''propertyIsEnumerable'',
      ''toLocaleString'', ''toString'', ''valueOf'', ''__proto__'', ''__defineGetter__'',
      ''__defineSetter__'', ''__lookupGetter__'', ''__lookupSetter__'']"

text \<open>\<open>if (biomarkers[name])\<close>\<close>

definition hasEntry :: "(string \<times> biomarker) list \<Rightarrow> string \<Rightarrow> bool" where
  "hasEntry bm name = (map_of bm name \<noteq> None \<or> name \<in> set objectPrototypeKeys)"

text \<open>\<open>obj[k] = v\<close>: an existing key keeps its place, a new one goes last.\<close>

fun assign :: "(string \<times> 'v) list \<Rightarrow> string \<Rightarrow> 'v \<Rightarrow> (string \<times> 'v) list" where
  "assign [] k v = [(k, v)]"
| "assign (p # ps) k v = (if fst p = k then (k, v) # ps else p # assign ps k v)"

text \<open>
  The members of \<open>Object.prototype\<close> are shared by every run in the process. The only thing
  the route can do to them is to give one a \<open>referenceRange\<close> property (the last loop of
  \<open>extractAllBiomarkers\<close>, for a name such as \<open>toString\<close>): \<open>globals\<close> holds these, by
  the name of the member.
\<close>

type_synonym globals = "(string \<times> range) list"

section \<open>Filters\<close>

text \<open>\<open>exclusionPatterns\<close>\<close>

definition exclusionPatterns :: "regexp list" where
  "exclusionPatterns =
     [\<lparr>ignoreCase = True,
       tree = alts (map lit [''address'', ''street'', ''ave'', ''avenue'', ''blvd'', ''boulevard'',
                             ''suite''])\<rparr>,
      \<lparr>ignoreCase = True, tree = alts (map lit [''city'', ''state'', ''zip'', ''postal''])\<rparr>,
      \<lparr>ignoreCase = True, tree = alts (map lit [''phone'', ''fax'', ''email'', ''contact''])\<rparr>,
      \<lparr>ignoreCase = True,
       tree = alts (map lit [''inc.'', ''llc'', ''corporation'', ''copyright'', ''rights reserved''])\<rparr>,
      \<lparr>ignoreCase = True, tree = lit ''randox health''\<rparr>,
      \<lparr>ignoreCase = True, tree = alts [Seq (lit ''com'') Eol, lit ''.com'', lit ''www.'']\<rparr>]"

definition sectionHeaders :: "string list" where
  "sectionHeaders =
     [''patient information'', ''doctor information'', ''laboratory information'',
      ''billing information'', ''insurance'', ''diagnosis'', ''specimen'', ''comments'',
      ''methodology'', ''interpretation'', ''disclaimer'']"

definition commonWords :: "string list" where
  "commonWords =
     [''test'', ''result'', ''value'', ''normal'', ''reference'', ''range'',
      ''name'', ''gender'', ''dob'', ''page'', ''report'', ''date'', ''time'']"

definition isBiomarkerName :: "string \<Rightarrow> bool" where
  "isBiomarkerName name =
     (let cleanName = replaceRuns isSpace (trim name) in
      if list_ex (\<lambda>pattern. test pattern cleanName) exclusionPatterns then False
      else if length cleanName < 3 \<or> 60 < length cleanName then False
      else if list_ex (\<lambda>header. includesStr (toLowerCase cleanName) (toLowerCase header))
                sectionHeaders then False
      else if list_ex (\<lambda>known. matchesKnown cleanName (fst known)) BIOMARKER_DEFINITIONS then True
      else if length (splitRuns isSpace cleanName) = 1
              \<and> toLowerCase cleanName \<in> set commonWords then False
      else True)"

definition isValidValue :: "number \<Rightarrow> bool" where
  "isValidValue v = (if numLess v (Num 0) \<or> numLess (Num 100000) v then False else True)"


text \<open>The bound the specification gives for an accepted value: a number from 0 to 100000.\<close>

definition plausible :: "number \<Rightarrow> bool" where
  "plausible v = (case v of Num q \<Rightarrow> 0 \<le> q \<and> q \<le> 100000 | _ \<Rightarrow> False)"

section \<open>The candidate scanner\<close>

text \<open>The pieces of \<open>patternsList\<close>: the name \<open>([A-Za-z][A-Za-z0-9\s\-\(\)\/]*?)\<close>, the
  separator \<open>[\s:\.]+\<close>, a number \<open>(\d+\.?\d*)\<close> and the unit \<open>([\w/%\^]+)\<close>.\<close>

definition isNameChar :: "char \<Rightarrow> bool" where
  "isNameChar c = (isAlpha c \<or> isDigit c \<or> isSpace c \<or> c \<in> set ''-()/'')"

definition nameGroup :: re where
  "nameGroup = Grp 1 (Seq letter (lazyStar (Cls False isNameChar)))"

definition separator :: re where
  "separator = plus (Cls False (\<lambda>c. isSpace c \<or> c \<in> set '':.''))"

definition numberGroup :: "nat \<Rightarrow> re" where
  "numberGroup i = Grp i (seqs [plus digit, opt (Chr CHR ''.''), star digit])"

definition unitGroup :: re where
  "unitGroup = Grp 3 (plus (Cls False (\<lambda>c. isWord c \<or> c \<in> set ''/%^'')))"

text \<open>\<open>patternsList\<close>, in the order of the array; all five have the \<open>g\<close> flag. The fifth
  adds \<open>\r\n\<close> to the class of the name, which \<open>\s\<close> already holds.\<close>

definition patternsList :: "regexp list" where
  "patternsList =
     [\<lparr>ignoreCase = False,
       tree = seqs [nameGroup, separator, numberGroup 2, star ws, opt unitGroup]\<rparr>,
      \<lparr>ignoreCase = False,
       tree = seqs [nameGroup, plus ws, numberGroup 2, plus ws, unitGroup]\<rparr>,
      \<lparr>ignoreCase = True,
       tree = seqs [nameGroup, separator, numberGroup 2, star ws, opt unitGroup,
                    star (Cls False (\<lambda>c. isSpace c \<or> c = CHR ''('')),
                    Alt (lit ''Reference Range'') (lit ''Normal''),
                    star (Cls False (\<lambda>c. isSpace c \<or> c \<in> set '':-'')),
                    numberGroup 4,
                    star (Cls False (\<lambda>c. isSpace c \<or> c = CHR ''-'')),
                    numberGroup 5]\<rparr>,
      \<lparr>ignoreCase = True,
       tree = seqs [nameGroup, separator, numberGroup 2, star ws, opt unitGroup, star ws,
                    Grp 4 (oneOf ''HL'')]\<rparr>,
      \<lparr>ignoreCase = False,
       tree = seqs [Grp 1 (Seq letter
                      (lazyStar (Cls False (\<lambda>c. isNameChar c \<or> isLineTerminator c)))),
                    separator, numberGroup 2, star ws, opt unitGroup]\<rparr>]"

text \<open>\<open>/^\d{1,2}\/\d{1,2}\/\d{2,4}$/\<close> and \<open>/date|time/i\<close>\<close>

definition slashDateShape :: regexp where
  "slashDateShape =
     \<lparr>ignoreCase = False,
      tree = seqs [Bol, times 1 2 digit, Chr CHR ''/'', times 1 2 digit, Chr CHR ''/'',
                   times 2 4 digit, Eol]\<rparr>"

definition dateOrTime :: regexp where
  "dateOrTime = \<lparr>ignoreCase = True, tree = Alt (lit ''date'') (lit ''time'')\<rparr>"

text \<open>
  \<open>while ((match = pattern.exec(text)) !== null) body\<close> for a pattern with the \<open>g\<close> flag:
  each search starts where the last match ended. A match that leaves \<open>lastIndex\<close> where it
  was (an empty match there) would be found again for ever.
\<close>

function execLoop ::
  "regexp \<Rightarrow> nat \<Rightarrow> (jsmatch \<Rightarrow> 's \<Rightarrow> 's outcome) \<Rightarrow> string \<Rightarrow> 's \<Rightarrow> 's outcome" where
  "execLoop p n body rest s =
     (case searchFrom p n rest of
        None \<Rightarrow> Returns s
      | Some mt \<Rightarrow>
          (case body mt s of
             Returns s' \<Rightarrow>
               if length (after mt) < length rest then execLoop p n body (after mt) s'
               else Diverges
           | Throws e \<Rightarrow> Throws e
           | Diverges \<Rightarrow> Diverges))"
  by pat_completeness auto
termination
  by (relation "measure (\<lambda>(p, n, body, rest, s). length rest)") auto

text \<open>The body of the scanning loop. \<open>match[1].trim()\<close> throws on an undefined group.\<close>

definition scanStep :: "jsmatch \<Rightarrow> potentialMatch list \<Rightarrow> potentialMatch list outcome" where
  "scanStep mt allPotentialMatches =
     (case group mt 1 of
        None \<Rightarrow> Throws TypeError
      | Some g1 \<Rightarrow>
          let name = trim g1;
              v = (case group mt 2 of None \<Rightarrow> NaN | Some g2 \<Rightarrow> parseFloat g2);
              u = map_option trim (group mt 3)
          in if test slashDateShape (matched mt) \<or> test dateOrTime name
             then Returns allPotentialMatches
             else if isBiomarkerName name \<and> isValidValue v
             then Returns (allPotentialMatches
                           @ [\<lparr>pmName = name, pmValue = v, pmUnit = u, pmPosition = index mt\<rparr>])
             else Returns allPotentialMatches)"

fun scanPatterns ::
  "string \<Rightarrow> regexp list \<Rightarrow> potentialMatch list \<Rightarrow> potentialMatch list outcome" where
  "scanPatterns text [] acc = Returns acc"
| "scanPatterns text (p # ps) acc =
     (case execLoop p (length text) scanStep text acc of
        Returns acc' \<Rightarrow> scanPatterns text ps acc'
      | Throws e \<Rightarrow> Throws e
      | Diverges \<Rightarrow> Diverges)"

section \<open>Accepting candidates\<close>

text \<open>\<open>addBiomarker\<close>: the key is the name with line breaks and runs of white space turned
  into single spaces.\<close>

definition addBiomarker :: "state \<Rightarrow> string \<Rightarrow> biomarker \<Rightarrow> nat \<Rightarrow> state" where
  "addBiomarker st name b position =
     (let normalizedName = trim (replaceRuns isSpace (replaceRuns isLineTerminator name))
      in \<lparr>biomarkers = assign (biomarkers st) normalizedName b,
          biomarkerPositions = assign (biomarkerPositions st) normalizedName position,
          originalOrder =
            (if normalizedName \<in> set (originalOrder st) then originalOrder st
             else originalOrder st @ [normalizedName])\<rparr>)"

text \<open>The body of the first loop over the sorted candidates: known biomarkers.\<close>

definition firstPassStep :: "potentialMatch \<Rightarrow> state \<Rightarrow> state" where
  "firstPassStep pm st =
     (if hasEntry (biomarkers st) (pmName pm) then st
      else (case find (\<lambda>known. matchesKnown (pmName pm) (fst known)) BIOMARKER_DEFINITIONS of
              None \<Rightarrow> st
            | Some known \<Rightarrow>
                addBiomarker st (pmName pm)
                  \<lparr>bmValue = pmValue pm,
                   bmUnit = (case pmUnit pm of
                               None \<Rightarrow> Some (units (snd known))
                             | Some u \<Rightarrow> if u = [] then Some (units (snd known)) else Some u),
                   referenceRange = Some (rangeOf (snd known)),
                   orderIndex = length (originalOrder st)\<rparr>
                  (pmPosition pm)))"

subsection \<open>The range near a candidate\<close>

text \<open>
  The first of \<open>rangePatterns\<close> is built from the candidate:
  \<open>new RegExp(`${name}[\\s:]+${value}[\\s]*(${unit || ''})[\\s]*[\\(\\[]?([\\d\\.]+)\\s*[-\<dots>]\\s*([\\d\\.]+)[\\)\\]]?`)\<close>.
  The name, the value and the unit are pattern text there. A name holds letters, digits,
  white space and \<open>-()/\<close>, the text of a value from 0 to 100000 digits and \<open>.e-\<close>, a unit
  word characters and \<open>/%^\<close>: so \<open>(\<close> and \<open>)\<close> make groups (numbered before the groups of
  the template), \<open>.\<close> is any character but a line terminator, \<open>^\<close> is the start of the input,
  and every other character stands for itself. Parentheses that do not balance are a
  \<open>SyntaxError\<close> (\<open>None\<close>). \<open>parseSource\<close> reads such a text; \<open>ng\<close> is the number of the
  next group, \<open>stack\<close> the open groups with what precedes each, \<open>cur\<close> the terms read at
  the current level, last first.
\<close>

definition atomOf :: "char \<Rightarrow> re" where
  "atomOf c = (if c = CHR ''.'' then Cls True isLineTerminator
               else if c = CHR ''^'' then Bol
               else Chr c)"

fun parseSource :: "string \<Rightarrow> nat \<Rightarrow> (nat \<times> re list) list \<Rightarrow> re list \<Rightarrow> (re \<times> nat) option" where
  "parseSource [] ng [] cur = Some (seqs (rev cur), ng)"
| "parseSource [] ng (f # stack) cur = None"
| "parseSource (c # cs) ng stack cur =
     (if c = CHR ''('' then parseSource cs (Suc ng) ((ng, cur) # stack) []
      else if c = CHR '')'' then
        (case stack of
           [] \<Rightarrow> None
         | f # stack' \<Rightarrow> parseSource cs ng stack' (Grp (fst f) (seqs (rev cur)) # snd f))
      else parseSource cs ng stack (atomOf c # cur))"

definition rangeNumber :: re where
  "rangeNumber = plus (Cls False (\<lambda>c. isDigit c \<or> c = CHR ''.''))"

definition dynamicRangePattern :: "string \<Rightarrow> number \<Rightarrow> string option \<Rightarrow> regexp option" where
  "dynamicRangePattern name v u =
     (case parseSource name 1 [] [] of
        None \<Rightarrow> None
      | Some (nameTree, ng) \<Rightarrow>
          (case parseSource (numberToString v) ng [] [] of
             None \<Rightarrow> None
           | Some (valueTree, ngB) \<Rightarrow>
               (case parseSource (case u of None \<Rightarrow> [] | Some x \<Rightarrow> x) (Suc ngB) [] [] of
                  None \<Rightarrow> None
                | Some (unitTree, ngC) \<Rightarrow>
                    Some \<lparr>ignoreCase = False,
                          tree = seqs [nameTree,
                                       plus (Cls False (\<lambda>c. isSpace c \<or> c = CHR '':'')),
                                       valueTree, star ws, Grp ngB unitTree, star ws,
                                       opt (oneOf ''([''), Grp ngC rangeNumber, star ws,
                                       Chr CHR ''-'', star ws, Grp (Suc ngC) rangeNumber,
                                       opt (oneOf '')]'')]\<rparr>)))"

text \<open>\<open>([<>]?\s*\d+\.?\d*)\<close>, and the three fixed patterns of \<open>rangePatterns\<close> (of the
  alternatives \<open>[-\<dots>]\<close>, hyphen or en dash, a text of this model can only hold the hyphen).\<close>

definition boundGroup :: "nat \<Rightarrow> re" where
  "boundGroup i =
     Grp i (seqs [opt (oneOf ''<>''), star ws, plus digit, opt (Chr CHR ''.''), star digit])"

definition fixedRangePatterns :: "regexp list" where
  "fixedRangePatterns =
     [\<lparr>ignoreCase = True,
       tree = seqs [lit ''Reference Range'', opt (Chr CHR '':''), star ws, boundGroup 1, star ws,
                    Chr CHR ''-'', star ws, boundGroup 2]\<rparr>,
      \<lparr>ignoreCase = True,
       tree = seqs [lit ''Normal Range'', opt (Chr CHR '':''), star ws, boundGroup 1, star ws,
                    Chr CHR ''-'', star ws, boundGroup 2]\<rparr>,
      \<lparr>ignoreCase = False,
       tree = seqs [Chr CHR ''('', boundGroup 1, star ws, Chr CHR ''-'', star ws, boundGroup 2,
                    Chr CHR '')'']\<rparr>]"

text \<open>The body of the loop over \<open>rangePatterns\<close>: \<open>Some\<close> is the range found (and the
  \<open>break\<close>).\<close>

definition rangeFrom :: "string \<Rightarrow> regexp \<Rightarrow> range option" where
  "rangeFrom surroundingText pattern =
     (case matchFirst pattern surroundingText of
        None \<Rightarrow> None
      | Some rangeMatch \<Rightarrow>
          (case group rangeMatch 1 of
             None \<Rightarrow> None
           | Some g1 \<Rightarrow>
               (case group rangeMatch 2 of
                  None \<Rightarrow> None
                | Some g2 \<Rightarrow>
                    if g1 = [] \<or> g2 = [] then None
                    else let lo = parseFloat (trim (removeAngles g1));
                             hi = parseFloat (trim (removeAngles g2))
                         in if \<not> isNaN lo \<and> \<not> isNaN hi \<and> numLess lo hi
                            then Some \<lparr>rmin = lo, rmax = hi\<rparr> else None)))"

text \<open>The body of the second loop over the sorted candidates: everything not yet taken.\<close>

definition secondPassStep :: "string \<Rightarrow> potentialMatch \<Rightarrow> state \<Rightarrow> state outcome" where
  "secondPassStep text pm st =
     (if hasEntry (biomarkers st) (pmName pm) then Returns st
      else let contextStart = pmPosition pm - 100;
               contextEnd = min (length text) (pmPosition pm + 200);
               surroundingText = substring text contextStart contextEnd
           in (case dynamicRangePattern (pmName pm) (pmValue pm) (pmUnit pm) of
                 None \<Rightarrow> Throws SyntaxError
               | Some dynamic \<Rightarrow>
                   Returns (addBiomarker st (pmName pm)
                     \<lparr>bmValue = pmValue pm,
                      bmUnit = pmUnit pm,
                      referenceRange =
                        firstSome (rangeFrom surroundingText) (dynamic # fixedRangePatterns),
                      orderIndex = length (originalOrder st)\<rparr>
                     (pmPosition pm))))"

fun secondPass :: "string \<Rightarrow> potentialMatch list \<Rightarrow> state \<Rightarrow> state outcome" where
  "secondPass text [] st = Returns st"
| "secondPass text (pm # pms) st =
     (case secondPassStep text pm st of
        Returns st' \<Rightarrow> secondPass text pms st'
      | Throws e \<Rightarrow> Throws e
      | Diverges \<Rightarrow> Diverges)"

subsection \<open>Ranges listed apart\<close>

text \<open>\<open>/([A-Za-z][A-Za-z0-9\s\-\(\)\/]*?)[\s:\.]+(?:reference|normal|range|ref)[\s:\.]*([<>]?\s*\d+\.?\d*)\s*[-\<dots>]\s*([<>]?\s*\d+\.?\d*)/gi\<close>\<close>

definition rangePattern :: regexp where
  "rangePattern =
     \<lparr>ignoreCase = True,
      tree = seqs [nameGroup, separator,
                   alts (map lit [''reference'', ''normal'', ''range'', ''ref'']),
                   star (Cls False (\<lambda>c. isSpace c \<or> c \<in> set '':.'')),
                   boundGroup 2, star ws, Chr CHR ''-'', star ws, boundGroup 3]\<rparr>"

text \<open>
  The body of the last loop. \<open>biomarkers[biomarkerName]\<close> is the entry of that key or, for
  a key the object only inherits, the member of \<open>Object.prototype\<close>, whose
  \<open>referenceRange\<close> is the one in \<open>globals\<close>.
\<close>

definition sweepStep ::
  "jsmatch \<Rightarrow> (string \<times> biomarker) list \<times> globals \<Rightarrow> ((string \<times> biomarker) list \<times> globals) outcome"
  where
  "sweepStep rangeMatch s =
     (case group rangeMatch 1 of
        None \<Rightarrow> Throws TypeError
      | Some g1 \<Rightarrow>
          let biomarkerName = trim g1 in
          if \<not> hasEntry (fst s) biomarkerName \<or> \<not> isBiomarkerName biomarkerName then Returns s
          else (case group rangeMatch 2 of
                  None \<Rightarrow> Throws TypeError
                | Some g2 \<Rightarrow>
                    (case group rangeMatch 3 of
                       None \<Rightarrow> Throws TypeError
                     | Some g3 \<Rightarrow>
                         let lo = parseFloat (trim (removeAngles g2));
                             hi = parseFloat (trim (removeAngles g3))
                         in (case map_of (fst s) biomarkerName of
                               Some b \<Rightarrow>
                                 if referenceRange b = None
                                 then Returns (assign (fst s) biomarkerName
                                                 (b\<lparr>referenceRange := Some \<lparr>rmin = lo, rmax = hi\<rparr>\<rparr>),
                                               snd s)
                                 else Returns s
                             | None \<Rightarrow>
                                 if map_of (snd s) biomarkerName = None
                                 then Returns (fst s,
                                               assign (snd s) biomarkerName \<lparr>rmin = lo, rmax = hi\<rparr>)
                                 else Returns s))))"

section \<open>\<open>extractAllBiomarkers\<close>\<close>

record extraction =
  biomarkersOut :: "(string \<times> biomarker) list"
  originalOrderOut :: "string list"

definition emptyState :: state where
  "emptyState = \<lparr>biomarkers = [], biomarkerPositions = [], originalOrder = []\<rparr>"

text \<open>\<open>allPotentialMatches.sort((a, b) => a.position - b.position)\<close>; the sort is stable.\<close>

definition sortByPosition :: "potentialMatch list \<Rightarrow> potentialMatch list" where
  "sortByPosition xs = sort_key pmPosition xs"

definition extractAllBiomarkers :: "globals \<Rightarrow> string \<Rightarrow> (extraction \<times> globals) outcome" where
  "extractAllBiomarkers g text =
     (case scanPatterns text patternsList [] of
        Throws e \<Rightarrow> Throws e
      | Diverges \<Rightarrow> Diverges
      | Returns allPotentialMatches \<Rightarrow>
          (case secondPass text (sortByPosition allPotentialMatches)
                  (fold firstPassStep (sortByPosition allPotentialMatches) emptyState) of
             Throws e \<Rightarrow> Throws e
           | Diverges \<Rightarrow> Diverges
           | Returns st \<Rightarrow>
               (case execLoop rangePattern (length text) sweepStep text (biomarkers st, g) of
                  Throws e \<Rightarrow> Throws e
                | Diverges \<Rightarrow> Diverges
                | Returns s \<Rightarrow>
                    Returns (\<lparr>biomarkersOut = fst s, originalOrderOut = originalOrder st\<rparr>,
                             snd s))))"


text \<open>What a run hands back, without the state it leaves in the shared members of
  \<open>Object.prototype\<close>.\<close>

definition outputOf :: "('a \<times> 'b) outcome \<Rightarrow> 'a outcome" where
  "outputOf r = (case r of Returns x \<Rightarrow> Returns (fst x) | Throws e \<Rightarrow> Throws e | Diverges \<Rightarrow> Diverges)"

section \<open>The request handler, one file\<close>

text \<open>
  What \<open>POST\<close> does with one uploaded file. Reading the file can fail (with the message of
  the error, if it is an \<open>Error\<close>); the PDF parser then reports either an error or the
  pages, each a list of encoded text runs.
\<close>

datatype parserEvent = DataError | DataReady "string list list"

datatype upload = Unreadable "string option" | Parsed parserEvent

record analysisResult =
  fileName :: string
  testDate :: string
  resultBiomarkers :: "(string \<times> biomarker) list"
  resultOriginalOrder :: "string list"
  errorMessage :: "string option"

text \<open>The object the \<open>catch\<close> of the file returns.\<close>

definition failed :: "host \<Rightarrow> string \<Rightarrow> string \<Rightarrow> analysisResult" where
  "failed h name message =
     \<lparr>fileName = name, testDate = toISOString (now h), resultBiomarkers = [],
      resultOriginalOrder = [], errorMessage = Some message\<rparr>"

fun decodeRuns :: "host \<Rightarrow> string list \<Rightarrow> string list option" where
  "decodeRuns h [] = Some []"
| "decodeRuns h (t # ts) =
     (case decodeURIComponent h t of
        None \<Rightarrow> None
      | Some d \<Rightarrow> (case decodeRuns h ts of None \<Rightarrow> None | Some ds \<Rightarrow> Some (d # ds)))"

text \<open>\<open>runs.join('\n')\<close>\<close>

fun joinLines :: "string list \<Rightarrow> string" where
  "joinLines [] = []"
| "joinLines [t] = t"
| "joinLines (t # ts) = t @ newline # joinLines ts"

definition processFile ::
  "host \<Rightarrow> globals \<Rightarrow> string \<Rightarrow> upload \<Rightarrow> (analysisResult \<times> globals) outcome" where
  "processFile h g name up =
     (case up of
        Unreadable message \<Rightarrow>
          Returns (failed h name
                     (case message of None \<Rightarrow> ''Unknown error occurred'' | Some msg \<Rightarrow> msg), g)
      | Parsed DataError \<Rightarrow> Returns (failed h name ''Failed to parse PDF'', g)
      | Parsed (DataReady pages) \<Rightarrow>
          (case decodeRuns h (concat pages) of
             None \<Rightarrow> Returns (failed h name ''Failed to parse PDF content'', g)
           | Some runs \<Rightarrow>
               (case extractAllBiomarkers g (joinLines runs) of
                  Diverges \<Rightarrow> Diverges
                | Throws e \<Rightarrow> Returns (failed h name ''Failed to parse PDF content'', g)
                | Returns r \<Rightarrow>
                    Returns
                      (\<lparr>fileName = name,
                        testDate =
                          (case extractTestDate h (joinLines runs) of
                             None \<Rightarrow> toISOString (now h)
                           | Some d \<Rightarrow> if d = [] then toISOString (now h) else d),
                        resultBiomarkers = biomarkersOut (fst r),
                        resultOriginalOrder = originalOrderOut (fst r),
                        errorMessage = None\<rparr>,
                       snd r))))"

section \<open>The earlier route\<close>

text \<open>
  \<open>blood-test-analyzer/src/app/api/analyze/route.ts\<close> is an earlier version of the same
  route, with the same request handler and date extractor. Its value filter differs:
  \<open>isValidValue\<close> there admits values up to ten millions, and turns away the whole
  numbers 1 to 10, 20, 25, 30, 40, 50, 75 and 90.
\<close>

definition isWhole :: "number \<Rightarrow> bool" where
  "isWhole v = (case v of Num q \<Rightarrow> of_int \<lfloor>q\<rfloor> = q | _ \<Rightarrow> False)"

definition isValidValue_route :: "number \<Rightarrow> bool" where
  "isValidValue_route v =
     (if numLess v (Num 0) \<or> numLess (Num 10000000) v then False
      else if numLess v (Num 100) \<and> isWhole v
              \<and> v \<in> set (map Num [1, 2, 3, 4, 5, 6, 7, 8, 9, 10, 20, 25, 30, 40, 50, 75, 90])
      then False
      else True)"

section \<open>A host for the examples\<close>

text \<open>A machine in UTC, whose \<open>Date.parse\<close> knows no format and whose clock stands at
  2024-03-01T12:00:00Z.\<close>

definition exampleHost :: host where
  "exampleHost =
     \<lparr>localTZA = (\<lambda>t isUTC. 0), dateParse = (\<lambda>s. None), now = 1709294400000,
      decodeURIComponent = (\<lambda>s. Some s)\<rparr>"


text \<open>A report with two \<open>Collection Date, Time\<close> labels.\<close>

definition twoLabels :: string where
  "twoLabels = ''Collection Date, Time'' @ newline # ''01-Jan-2020'' @ newline #
               ''Collection Date, Time'' @ newline # ''08-Feb-2024''"

section \<open>Facts about the patterns\<close>

text \<open>What every match of a scanning pattern has: the name group and the number group
  took part, the number starts with a digit, and the match is not empty.\<close>

inductive_cases semChrE: "sem ic n (Chr x) s s'"
inductive_cases semClsE: "sem ic n (Cls negated P) s s'"
inductive_cases semSeqE: "sem ic n (Seq a b) s s'"
inductive_cases semAltE: "sem ic n (Alt a b) s s'"
inductive_cases semGrpE: "sem ic n (Grp i r) s s'"
inductive_cases semRepE: "sem ic n (Rep mn mx g r) s s'"

lemma sem_SeqD: "sem ic n (Seq a b) s s' \<Longrightarrow> \<exists>s2. sem ic n a s s2 \<and> sem ic n b s2 s'"
  by (erule semSeqE) auto

lemma sem_GrpD:
  "sem ic n (Grp i r) (rest, c) (rest', c') \<Longrightarrow>
   \<exists>c0. c' = (i, take (length rest - length rest') rest) # clearCaps [i] c0
        \<and> sem ic n r (rest, c) (rest', c0)"
  by (erule semGrpE) auto

lemma sem_length: "sem ic n r s s' \<Longrightarrow> length (fst s') \<le> length (fst s)"
  by (induction rule: sem.induct) auto

lemma map_of_clearCaps: "i \<notin> set gs \<Longrightarrow> map_of (clearCaps gs c) i = map_of c i"
  by (induction c) (auto simp: clearCaps_def)

lemma sem_caps_other:
  "sem ic n r s s' \<Longrightarrow> i \<notin> set (groupsOf r) \<Longrightarrow> map_of (snd s') i = map_of (snd s) i"
  by (induction rule: sem.induct) (auto simp: map_of_clearCaps)

lemma isDigit_toUpperChar: "isDigit (toUpperChar y) \<Longrightarrow> isDigit y"
proof (cases y)
  case (Char b0 b1 b2 b3 b4 b5 b6 b7)
  assume "isDigit (toUpperChar y)"
  then show ?thesis unfolding Char
    by (cases b5; cases b6; cases b7; simp add: isDigit_bits toUpperChar_bits split: if_splits)
qed

lemma isDigit_toLowerChar: "isDigit (toLowerChar y) \<Longrightarrow> isDigit y"
proof (cases y)
  case (Char b0 b1 b2 b3 b4 b5 b6 b7)
  assume "isDigit (toLowerChar y)"
  then show ?thesis unfolding Char
    by (cases b5; cases b6; cases b7; simp add: isDigit_bits toLowerChar_bits split: if_splits)
qed

lemma sem_digit:
  "sem ic n digit s s' \<Longrightarrow> \<exists>d ds. fst s = d # ds \<and> isDigit d \<and> s' = (ds, snd s)"
  unfolding digit_def
  by (erule semClsE)
     (auto simp: clsMatches_def dest: isDigit_toUpperChar isDigit_toLowerChar split: if_splits)

lemma sem_Rep_first:
  "sem ic n (Rep mn mx g r) (rest, c) s' \<Longrightarrow> mn \<noteq> 0 \<Longrightarrow> mx \<noteq> Some 0 \<Longrightarrow>
   \<exists>s2. sem ic n r (rest, clearCaps (groupsOf r) c) s2
        \<and> sem ic n (Rep (mn - 1) (decMax mx) g r) s2 s'"
  by (erule semRepE) auto

lemma sem_plus_digit:
  assumes "sem ic n (plus digit) (rest, c) s'"
  shows "\<exists>d ds. rest = d # ds \<and> isDigit d \<and> length (fst s') \<le> length ds"
proof -
  from sem_Rep_first[OF assms[unfolded plus_def]] obtain s2 where
    one: "sem ic n digit (rest, clearCaps (groupsOf digit) c) s2"
    and more: "sem ic n (Rep 0 (decMax None) True digit) s2 s'"
    by auto
  from sem_digit[OF one] obtain d ds where "rest = d # ds" "isDigit d" "fst s2 = ds"
    by auto
  with sem_length[OF more] show ?thesis by auto
qed

lemma sem_numberGroup:
  assumes "sem ic n (numberGroup i) (rest, c) (rest', c')"
  shows "\<exists>d ds. map_of c' i = Some (d # ds) \<and> isDigit d \<and> length rest' < length rest"
proof -
  from sem_GrpD[OF assms[unfolded numberGroup_def]] obtain c0 where
    cap: "c' = (i, take (length rest - length rest') rest) # clearCaps [i] c0"
    and inner: "sem ic n (Seq (plus digit) (Seq (opt (Chr CHR ''.'')) (star digit))) (rest, c) (rest', c0)"
    by auto
  from sem_SeqD[OF inner] obtain s1 where a: "sem ic n (plus digit) (rest, c) s1"
    and b: "sem ic n (Seq (opt (Chr CHR ''.'')) (star digit)) s1 (rest', c0)"
    by auto
  from sem_plus_digit[OF a] obtain d ds where d: "rest = d # ds" "isDigit d" "length (fst s1) \<le> length ds"
    by auto
  from sem_length[OF b] d have lt: "length rest' < length rest" by simp
  with d cap have "map_of c' i = Some (d # take (length ds - length rest') ds)"
    by (cases "length ds - length rest'") (auto simp: Suc_diff_le)
  with d lt show ?thesis by blast
qed

lemma scan_shape:
  assumes run: "sem ic n (Seq (Grp 1 X) (Seq S (Seq (numberGroup 2) R))) (rest, c) (rest', c')"
    and S: "1 \<notin> set (groupsOf S)" and R1: "1 \<notin> set (groupsOf R)" and R2: "2 \<notin> set (groupsOf R)"
  shows "(\<exists>g1. map_of c' 1 = Some g1) \<and> (\<exists>d ds. map_of c' 2 = Some (d # ds) \<and> isDigit d)
         \<and> length rest' < length rest"
proof -
  from sem_SeqD[OF run] obtain s1 where
    a: "sem ic n (Grp 1 X) (rest, c) s1" and rest1: "sem ic n (Seq S (Seq (numberGroup 2) R)) s1 (rest', c')"
    by auto
  from sem_SeqD[OF rest1] obtain s2 where
    b: "sem ic n S s1 s2" and rest2: "sem ic n (Seq (numberGroup 2) R) s2 (rest', c')"
    by auto
  from sem_SeqD[OF rest2] obtain s3 where
    v: "sem ic n (numberGroup 2) s2 s3" and r: "sem ic n R s3 (rest', c')"
    by auto
  from sem_GrpD[of ic n 1 X rest c "fst s1" "snd s1"] a
  obtain g1 where g1: "map_of (snd s1) 1 = Some g1" by auto
  from sem_caps_other[OF b S] g1 have "map_of (snd s2) 1 = Some g1" by simp
  moreover have "1 \<notin> set (groupsOf (numberGroup 2))"
    by (simp add: numberGroup_def digit_def plus_def opt_def star_def)
  ultimately have s3_1: "map_of (snd s3) 1 = Some g1" using sem_caps_other[OF v] by simp
  from sem_numberGroup[of ic n 2 "fst s2" "snd s2" "fst s3" "snd s3"] v
  obtain d ds where d: "map_of (snd s3) 2 = Some (d # ds)" "isDigit d" "length (fst s3) < length (fst s2)"
    by auto
  from sem_caps_other[OF r R1] s3_1 have c1: "map_of c' 1 = Some g1" by simp
  from sem_caps_other[OF r R2] d have c2: "map_of c' 2 = Some (d # ds)" by simp
  from sem_length[OF a] sem_length[OF b] sem_length[OF r] d(3) have "length rest' < length rest" by simp
  with c1 c2 d(2) show ?thesis by blast
qed

lemma matchAt_sem:
  "matchAt p n rest = Some st \<Longrightarrow> sem (ignoreCase p) n (tree p) (rest, []) st"
  unfolding matchAt_def by (drule m_sound) auto

declare execLoop.simps [simp del]

lemma groupsOf_quantified [simp]:
  "groupsOf (star r) = groupsOf r" "groupsOf (plus r) = groupsOf r" "groupsOf (opt r) = groupsOf r"
  "groupsOf (lazyStar r) = groupsOf r" "groupsOf (times lo hi r) = groupsOf r"
  by (simp_all add: star_def plus_def opt_def lazyStar_def times_def)

lemma groupsOf_lit [simp]: "groupsOf (lit s) = []"
  by (induction s) (simp_all add: lit_def)

lemma groupsOf_atoms [simp]:
  "groupsOf ws = []" "groupsOf digit = []" "groupsOf letter = []" "groupsOf (oneOf s) = []"
  "groupsOf (cls P) = []"
  by (simp_all add: ws_def digit_def letter_def oneOf_def cls_def)

lemma groupsOf_parts [simp]:
  "groupsOf separator = []" "groupsOf unitGroup = [3]" "groupsOf (numberGroup i) = [i]"
  "groupsOf (boundGroup i) = [i]" "groupsOf nameGroup = [1]"
  by (simp_all add: separator_def unitGroup_def numberGroup_def boundGroup_def nameGroup_def)

lemma patternsList_shape:
  assumes p: "p \<in> set patternsList" and mt: "matchAt p n rest = Some (rest', c')"
  shows "(\<exists>g1. map_of c' 1 = Some g1) \<and> (\<exists>d ds. map_of c' 2 = Some (d # ds) \<and> isDigit d)
         \<and> length rest' < length rest"
proof -
  from p have "\<exists>X S R. tree p = Seq (Grp 1 X) (Seq S (Seq (numberGroup 2) R))
      \<and> 1 \<notin> set (groupsOf S) \<and> 1 \<notin> set (groupsOf R) \<and> 2 \<notin> set (groupsOf R)"
    unfolding patternsList_def nameGroup_def by auto
  then obtain X S R where t: "tree p = Seq (Grp 1 X) (Seq S (Seq (numberGroup 2) R))"
    and g: "1 \<notin> set (groupsOf S)" "1 \<notin> set (groupsOf R)" "2 \<notin> set (groupsOf R)"
    by blast
  from matchAt_sem[OF mt] have "sem (ignoreCase p) n (Seq (Grp 1 X) (Seq S (Seq (numberGroup 2) R))) (rest, []) (rest', c')"
    by (simp add: t)
  from scan_shape[OF this g] show ?thesis .
qed

lemma searchFrom_Some:
  "searchFrom p n rest = Some mt \<Longrightarrow>
   \<exists>rest0 st. matchAt p n rest0 = Some st \<and> mt = mkMatch n rest0 st \<and> length rest0 \<le> length rest"
proof (induction rest)
  case Nil
  then show ?case by (auto split: option.splits)
next
  case (Cons x xs)
  show ?case
  proof (cases "matchAt p n (x # xs)")
    case None
    with Cons.prems have "searchFrom p n xs = Some mt" by simp
    from Cons.IH[OF this] show ?thesis by (auto intro: le_SucI)
  next
    case (Some st)
    with Cons.prems have "mt = mkMatch n (x # xs) st" by simp
    with Some show ?thesis by blast
  qed
qed

text \<open>A loop whose pattern never matches the empty string, and whose body returns, returns,
  and keeps what the body keeps.\<close>

lemma execLoop_Returns:
  assumes progress: "\<And>rest mt. searchFrom p n rest = Some mt \<Longrightarrow> length (after mt) < length rest"
    and body: "\<And>rest mt s. searchFrom p n rest = Some mt \<Longrightarrow> I s \<Longrightarrow> \<exists>s'. body mt s = Returns s' \<and> I s'"
  shows "I s \<Longrightarrow> \<exists>s'. execLoop p n body rest s = Returns s' \<and> I s'"
proof (induction "length rest" arbitrary: rest s rule: less_induct)
  case less
  show ?case
  proof (cases "searchFrom p n rest")
    case None
    with less.prems show ?thesis by (subst execLoop.simps) simp
  next
    case (Some mt)
    from body[OF Some less.prems] obtain s' where s': "body mt s = Returns s'" "I s'" by blast
    from progress[OF Some] have lt: "length (after mt) < length rest" .
    from less.hyps[OF lt s'(2)] obtain s'' where
      "execLoop p n body (after mt) s' = Returns s''" "I s''" by blast
    with Some s' lt show ?thesis by (subst execLoop.simps) simp
  qed
qed

lemma toDouble_not_NaN: "toDouble q \<noteq> NaN"
  by (simp add: toDouble_def Let_def)

lemma isDigit_not_space: "isDigit d \<Longrightarrow> \<not> isSpace d"
  by (cases d) (auto simp: isDigit_bits isSpace_bits)

lemma isDigit_not_sign: "isDigit d \<Longrightarrow> d \<noteq> CHR ''-'' \<and> d \<noteq> CHR ''+'' \<and> d \<noteq> CHR ''I''"
  by (auto simp: isDigit_bits)

lemma parseFloat_digit: "isDigit d \<Longrightarrow> parseFloat (d # ds) \<noteq> NaN"
  by (auto simp: parseFloat_def parseUnsigned_def Let_def toDouble_not_NaN
      dest: isDigit_not_space isDigit_not_sign)

lemma isValidValue_plausible: "isValidValue v \<Longrightarrow> v \<noteq> NaN \<Longrightarrow> plausible v"
  by (cases v) (auto simp: isValidValue_def plausible_def split: if_splits)

lemma searchFrom_patternsList:
  assumes p: "p \<in> set patternsList" and s: "searchFrom p n rest = Some mt"
  shows "(\<exists>g1. group mt 1 = Some g1) \<and> (\<exists>d ds. group mt 2 = Some (d # ds) \<and> isDigit d)
         \<and> length (after mt) < length rest"
proof -
  from searchFrom_Some[OF s] obtain rest0 st where
    st: "matchAt p n rest0 = Some st" "mt = mkMatch n rest0 st" "length rest0 \<le> length rest"
    by blast
  from patternsList_shape[OF p, of n rest0 "fst st" "snd st"] st(1)
  have "(\<exists>g1. map_of (snd st) 1 = Some g1) \<and> (\<exists>d ds. map_of (snd st) 2 = Some (d # ds) \<and> isDigit d)
         \<and> length (fst st) < length rest0" by simp
  with st(2,3) show ?thesis by (auto simp: group_def mkMatch_def)
qed

lemma scanStep_Returns:
  assumes p: "p \<in> set patternsList" and s: "searchFrom p n rest = Some mt"
    and I: "\<forall>pm \<in> set acc. plausible (pmValue pm)"
  shows "\<exists>acc'. scanStep mt acc = Returns acc' \<and> (\<forall>pm \<in> set acc'. plausible (pmValue pm))"
proof -
  from searchFrom_patternsList[OF p s] obtain g1 d ds where
    g: "group mt 1 = Some g1" "group mt 2 = Some (d # ds)" "isDigit d" by blast
  from parseFloat_digit[OF g(3)] have "isValidValue (parseFloat (d # ds)) \<Longrightarrow> plausible (parseFloat (d # ds))"
    by (rule isValidValue_plausible[rotated])
  with g I show ?thesis by (auto simp: scanStep_def Let_def)
qed

lemma scanPatterns_Returns:
  "set ps \<subseteq> set patternsList \<Longrightarrow> \<forall>pm \<in> set acc. plausible (pmValue pm) \<Longrightarrow>
   \<exists>acc'. scanPatterns text ps acc = Returns acc' \<and> (\<forall>pm \<in> set acc'. plausible (pmValue pm))"
proof (induction ps arbitrary: acc)
  case Nil
  then show ?case by simp
next
  case (Cons p ps)
  from Cons.prems(1) have p: "p \<in> set patternsList" by simp
  have "\<exists>acc'. execLoop p (length text) scanStep text acc = Returns acc'
          \<and> (\<forall>pm \<in> set acc'. plausible (pmValue pm))"
    by (rule execLoop_Returns[where I = "\<lambda>acc. \<forall>pm \<in> set acc. plausible (pmValue pm)"])
       (use searchFrom_patternsList[OF p] scanStep_Returns[OF p] Cons.prems(2) in auto)
  then obtain acc' where a: "execLoop p (length text) scanStep text acc = Returns acc'"
    "\<forall>pm \<in> set acc'. plausible (pmValue pm)" by blast
  from Cons.IH[OF _ a(2)] Cons.prems(1) obtain acc'' where
    "scanPatterns text ps acc' = Returns acc''" "\<forall>pm \<in> set acc''. plausible (pmValue pm)" by auto
  with a show ?case by simp
qed

lemma toISOString_fallbackDate: "toISOString fallbackDate = ''2023-06-15T00:00:00.000Z''"
  by code_simp

lemma firstSome_None: "(\<And>x. x \<in> set xs \<Longrightarrow> f x = None) \<Longrightarrow> firstSome f xs = None"
  by (induction xs) auto

lemma sweepStep_independent:
  "outputOf (sweepStep mt (bm, g1)) = outputOf (sweepStep mt (bm, g2))"
  by (simp add: sweepStep_def Let_def outputOf_def split: option.splits)

lemma sweep_independent:
  "outputOf (execLoop p n sweepStep rest (bm, g1)) = outputOf (execLoop p n sweepStep rest (bm, g2))"
proof (induction "length rest" arbitrary: rest bm g1 g2 rule: less_induct)
  case less
  show ?case
  proof (cases "searchFrom p n rest")
    case None
    then show ?thesis by (simp add: execLoop.simps[of p n sweepStep rest] outputOf_def)
  next
    case (Some mt)
    show ?thesis
    proof (cases "sweepStep mt (bm, g1)")
      case (Returns a)
      with sweepStep_independent[of mt bm g1 g2] obtain b where
        b: "sweepStep mt (bm, g2) = Returns b" "fst b = fst a"
        by (auto simp: outputOf_def split: outcome.splits)
      show ?thesis
      proof (cases "length (after mt) < length rest")
        case True
        from less.hyps[OF True, of "fst a" "snd a" "snd b"] b(2)
        have "outputOf (execLoop p n sweepStep (after mt) a) = outputOf (execLoop p n sweepStep (after mt) b)"
          by (cases a; cases b) simp
        with Some Returns b True show ?thesis
          by (simp add: execLoop.simps[of p n sweepStep rest])
      next
        case False
        with Some Returns b show ?thesis
          by (simp add: execLoop.simps[of p n sweepStep rest] outputOf_def)
      qed
    next
      case (Throws e)
      with sweepStep_independent[of mt bm g1 g2] have "sweepStep mt (bm, g2) = Throws e"
        by (auto simp: outputOf_def split: outcome.splits)
      with Some Throws show ?thesis by (simp add: execLoop.simps[of p n sweepStep rest] outputOf_def)
    next
      case Diverges
      with sweepStep_independent[of mt bm g1 g2] have "sweepStep mt (bm, g2) = Diverges"
        by (auto simp: outputOf_def split: outcome.splits)
      with Some Diverges show ?thesis by (simp add: execLoop.simps[of p n sweepStep rest] outputOf_def)
    qed
  qed
qed

lemma searchFrom_drop:
  "searchFrom p n rest = Some mt \<Longrightarrow>
   \<exists>k st. k \<le> length rest \<and> matchAt p n (drop k rest) = Some st \<and> mt = mkMatch n (drop k rest) st"
proof (induction rest)
  case Nil
  then show ?case by (auto split: option.splits)
next
  case (Cons x xs)
  show ?case
  proof (cases "matchAt p n (x # xs)")
    case None
    with Cons.prems have "searchFrom p n xs = Some mt" by simp
    from Cons.IH[OF this] obtain k st where
      "k \<le> length xs" "matchAt p n (drop k xs) = Some st" "mt = mkMatch n (drop k xs) st" by blast
    then show ?thesis by (intro exI[of _ "Suc k"] exI[of _ st]) simp
  next
    case (Some st)
    with Cons.prems have "mt = mkMatch n (x # xs) st" by simp
    with Some show ?thesis by (intro exI[of _ 0] exI[of _ st]) simp
  qed
qed

lemma matchFirst_at:
  assumes "matchFirst p text = Some mt"
  shows "\<exists>st. matchAt p (length text) (drop (index mt) text) = Some st
              \<and> mt = mkMatch (length text) (drop (index mt) text) st"
proof -
  from searchFrom_drop[OF assms[unfolded matchFirst_def]] obtain k st where
    k: "k \<le> length text" "matchAt p (length text) (drop k text) = Some st"
       "mt = mkMatch (length text) (drop k text) st" by blast
  from k(1,3) have idx: "index mt = k" by (simp add: mkMatch_def)
  show ?thesis unfolding idx using k(2,3) by blast
qed

lemma collection_matchAt:
  "matchAt collectionDatePattern n (''Collection Date, Time'' @ newline # ''08-Feb-2024'' @ post)
     = Some (post, [(1, ''08-Feb-2024'')])"
  by (simp add: matchAt_def collectionDatePattern_def lit_def star_def times_def digit_def ws_def
      letter_def newline_def rep.simps chrMatches_def clsMatches_def clearCaps_def
      toUpperChar_bits toLowerChar_bits isSpace_bits isDigit_bits isAlpha_bits)

lemma feb_parts:
  "trim ''08-Feb-2024'' = ''08-Feb-2024''"
  "splitOn (\<lambda>c. c = CHR ''-'') ''08-Feb-2024'' = [''08'', ''Feb'', ''2024'']"
  "parseInt ''08'' = Some 8" "monthMap ''Feb'' = Some 1" "parseInt ''2024'' = Some 2024"
  by code_simp+

subsection \<open>The extraction ends\<close>

text \<open>
  Every match of the sweep pattern consumes a letter and defines its three groups, so the
  sweep loop ends and reads no undefined group. The only failure left to the extraction
  is the \<open>SyntaxError\<close> of \<open>new RegExp\<close> in the second pass.
\<close>

lemma sem_letter:
  "sem ic n letter s s' \<Longrightarrow> length (fst s') < length (fst s)"
  unfolding letter_def by (erule semClsE) auto

lemma sem_nameGroup:
  assumes "sem ic n nameGroup (rest, c) (rest', c')"
  shows "(\<exists>g1. map_of c' 1 = Some g1) \<and> length rest' < length rest"
proof -
  from sem_GrpD[OF assms[unfolded nameGroup_def]] obtain c0 where
    cap: "c' = (1, take (length rest - length rest') rest) # clearCaps [1] c0"
    and inner: "sem ic n (Seq letter (lazyStar (Cls False isNameChar))) (rest, c) (rest', c0)"
    by auto
  from sem_SeqD[OF inner] obtain s1 where a: "sem ic n letter (rest, c) s1"
    and b: "sem ic n (lazyStar (Cls False isNameChar)) s1 (rest', c0)" by auto
  from sem_letter[OF a] sem_length[OF b] have "length rest' < length rest" by simp
  with cap show ?thesis by simp
qed

lemma sem_boundGroup:
  "sem ic n (boundGroup i) (rest, c) (rest', c') \<Longrightarrow> \<exists>g. map_of c' i = Some g"
  unfolding boundGroup_def by (drule sem_GrpD) auto

lemma rangePattern_shape:
  assumes mt: "matchAt rangePattern n rest = Some (rest', c')"
  shows "(\<exists>g1. map_of c' 1 = Some g1) \<and> (\<exists>g2. map_of c' 2 = Some g2)
         \<and> (\<exists>g3. map_of c' 3 = Some g3) \<and> length rest' < length rest"
proof -
  let ?A = "alts (map lit [''reference'', ''normal'', ''range'', ''ref''])"
  let ?B = "star (Cls False (\<lambda>c. isSpace c \<or> c \<in> set '':.''))"
  let ?tail = "Seq (star ws) (Seq (Chr CHR ''-'') (Seq (star ws) (boundGroup 3)))"
  from matchAt_sem[OF mt] have run: "sem True n
      (Seq nameGroup (Seq separator (Seq ?A (Seq ?B (Seq (boundGroup 2) ?tail))))) (rest, []) (rest', c')"
    by (simp add: rangePattern_def)
  from sem_SeqD[OF run] obtain s1 where
    a: "sem True n nameGroup (rest, []) s1"
    and r1: "sem True n (Seq separator (Seq ?A (Seq ?B (Seq (boundGroup 2) ?tail)))) s1 (rest', c')"
    by auto
  from sem_SeqD[OF r1] obtain s2 where
    r2: "sem True n (Seq ?A (Seq ?B (Seq (boundGroup 2) ?tail))) s2 (rest', c')" by auto
  from sem_SeqD[OF r2] obtain s3 where
    r3: "sem True n (Seq ?B (Seq (boundGroup 2) ?tail)) s3 (rest', c')" by auto
  from sem_SeqD[OF r3] obtain s4 where
    r4: "sem True n (Seq (boundGroup 2) ?tail) s4 (rest', c')" by auto
  from sem_SeqD[OF r4] obtain s5 where
    b2: "sem True n (boundGroup 2) s4 s5" and r5: "sem True n ?tail s5 (rest', c')" by auto
  from sem_SeqD[OF r5] obtain s6 where r6: "sem True n (Seq (Chr CHR ''-'') (Seq (star ws) (boundGroup 3))) s6 (rest', c')"
    by auto
  from sem_SeqD[OF r6] obtain s7 where r7: "sem True n (Seq (star ws) (boundGroup 3)) s7 (rest', c')"
    by auto
  from sem_SeqD[OF r7] obtain s8 where b3: "sem True n (boundGroup 3) s8 (rest', c')"
    by auto
  from sem_nameGroup[of True n rest "[]" "fst s1" "snd s1"] a obtain g1 where
    g1: "map_of (snd s1) 1 = Some g1" and lt: "length (fst s1) < length rest" by auto
  have "1 \<notin> set (groupsOf (Seq separator (Seq ?A (Seq ?B (Seq (boundGroup 2) ?tail)))))"
    by simp
  from sem_caps_other[OF r1 this] g1 have c1: "map_of c' 1 = Some g1" by simp
  from sem_boundGroup[of True n 2 "fst s4" "snd s4" "fst s5" "snd s5"] b2 obtain g2 where
    g2: "map_of (snd s5) 2 = Some g2" by auto
  have "2 \<notin> set (groupsOf ?tail)" by simp
  from sem_caps_other[OF r5 this] g2 have c2: "map_of c' 2 = Some g2" by simp
  from sem_boundGroup[of True n 3 "fst s8" "snd s8" rest' c'] b3 obtain g3 where
    c3: "map_of c' 3 = Some g3" by auto
  from sem_length[OF r1] lt have "length rest' < length rest" by simp
  with c1 c2 c3 show ?thesis by blast
qed

lemma searchFrom_rangePattern:
  assumes s: "searchFrom rangePattern n rest = Some mt"
  shows "(\<exists>g1. group mt 1 = Some g1) \<and> (\<exists>g2. group mt 2 = Some g2) \<and> (\<exists>g3. group mt 3 = Some g3)
         \<and> length (after mt) < length rest"
proof -
  from searchFrom_Some[OF s] obtain rest0 st where
    st: "matchAt rangePattern n rest0 = Some st" "mt = mkMatch n rest0 st" "length rest0 \<le> length rest"
    by blast
  from rangePattern_shape[of n rest0 "fst st" "snd st"] st(1)
  have "(\<exists>g1. map_of (snd st) 1 = Some g1) \<and> (\<exists>g2. map_of (snd st) 2 = Some g2)
      \<and> (\<exists>g3. map_of (snd st) 3 = Some g3) \<and> length (fst st) < length rest0" by simp
  with st(2,3) show ?thesis by (auto simp: group_def mkMatch_def)
qed

lemma sweepStep_Returns:
  assumes "searchFrom rangePattern n rest = Some mt"
  shows "\<exists>s'. sweepStep mt s = Returns s'"
proof -
  from searchFrom_rangePattern[OF assms] obtain g1 g2 g3 where
    "group mt 1 = Some g1" "group mt 2 = Some g2" "group mt 3 = Some g3" by blast
  then show ?thesis by (simp add: sweepStep_def Let_def split: option.splits)
qed

lemma sweep_Returns: "\<exists>s'. execLoop rangePattern n sweepStep rest s = Returns s'"
proof -
  have "\<exists>s'. execLoop rangePattern n sweepStep rest s = Returns s' \<and> True"
    by (rule execLoop_Returns[where I = "\<lambda>s. True"])
       (use searchFrom_rangePattern sweepStep_Returns in auto)
  then show ?thesis by simp
qed

lemma secondPass_outcome:
  "secondPass text pms st \<noteq> Diverges \<and> (secondPass text pms st = Throws e \<longrightarrow> e = SyntaxError)"
proof (induction pms arbitrary: st)
  case Nil
  show ?case by simp
next
  case (Cons pm pms)
  have "(\<exists>st'. secondPassStep text pm st = Returns st') \<or> secondPassStep text pm st = Throws SyntaxError"
    by (simp add: secondPassStep_def Let_def split: option.splits)
  with Cons.IH show ?case by auto
qed

lemma extraction_outcome:
  "(\<exists>r. extractAllBiomarkers g text = Returns r) \<or> extractAllBiomarkers g text = Throws SyntaxError"
proof -
  from scanPatterns_Returns[of patternsList "[]" "text"] obtain found where
    scan: "scanPatterns text patternsList [] = Returns found" by auto
  let ?second = "secondPass text (sortByPosition found) (fold firstPassStep (sortByPosition found) emptyState)"
  show ?thesis
  proof (cases ?second)
    case (Returns st)
    from sweep_Returns[of "length text" "text" "(biomarkers st, g)"] obtain s where
      "execLoop rangePattern (length text) sweepStep text (biomarkers st, g) = Returns s" by blast
    with scan Returns show ?thesis by (simp add: extractAllBiomarkers_def)
  next
    case (Throws e)
    with secondPass_outcome[of "text" "sortByPosition found" "fold firstPassStep (sortByPosition found) emptyState" e]
    have "e = SyntaxError" by simp
    with scan Throws show ?thesis by (simp add: extractAllBiomarkers_def)
  next
    case Diverges
    with secondPass_outcome[of "text" "sortByPosition found" "fold firstPassStep (sortByPosition found) emptyState"]
    show ?thesis by simp
  qed
qed

section \<open>Claims\<close>

subsection \<open>The text \<open>Glucose: 85 mg/dL\<close>\<close>

text \<open>
  C7. For the input text \<open>Glucose: 85 mg/dL\<close> the extraction returns a biomarker mapping
  whose key \<open>Glucose\<close> has value 85, unit \<open>mg/dL\<close>, reference range 70 to 100 (the range
  of the dictionary) and order index 0. It is the only key, \<open>originalOrder\<close> holds just
  that name, and the shared members of \<open>Object.prototype\<close> are left as they were.
\<close>

theorem glucose_example:
  "extractAllBiomarkers g ''Glucose: 85 mg/dL'' =
     Returns (\<lparr>biomarkersOut =
                 [(''Glucose'',
                   \<lparr>bmValue = Num 85, bmUnit = Some ''mg/dL'',
                    referenceRange = Some \<lparr>rmin = Num 70, rmax = Num 100\<rparr>,
                    orderIndex = 0\<rparr>)],
               originalOrderOut = [''Glucose'']\<rparr>, g)"
  by code_simp


subsection \<open>The value filter\<close>

text \<open>
  C1, as the two routes have it. In the route with the ordered output, whatever the text,
  the five pattern passes return, and every candidate they accept has a value from 0 to
  100000; the filter turns away -1 and 100001. The value filter of the earlier route
  admits values up to 10000000: it turns away -1, but not every value above 100000.
\<close>

theorem value_filter:
  "(\<exists>found. scanPatterns text patternsList [] = Returns found
       \<and> (\<forall>pm \<in> set found. plausible (pmValue pm)))
   \<and> \<not> isValidValue (Num (- 1)) \<and> \<not> isValidValue (Num 100001)
   \<and> (isValidValue_route v \<longrightarrow> v = NaN \<or> (\<exists>q. v = Num q \<and> 0 \<le> q \<and> q \<le> 10000000))
   \<and> \<not> isValidValue_route (Num (- 1))"
proof -
  have "\<exists>found. scanPatterns text patternsList [] = Returns found
          \<and> (\<forall>pm \<in> set found. plausible (pmValue pm))"
    by (rule scanPatterns_Returns) simp_all
  moreover have "\<not> isValidValue (Num (- 1))" "\<not> isValidValue (Num 100001)"
    "\<not> isValidValue_route (Num (- 1))"
    by (simp_all add: isValidValue_def isValidValue_route_def)
  moreover have "isValidValue_route v \<longrightarrow> v = NaN \<or> (\<exists>q. v = Num q \<and> 0 \<le> q \<and> q \<le> 10000000)"
    by (cases v) (auto simp: isValidValue_route_def split: if_splits)
  ultimately show ?thesis by blast
qed

lemma scan_glucose:
  "scanPatterns ''Glucose: 85 mg/dL'' patternsList [] =
     Returns [\<lparr>pmName = ''Glucose'', pmValue = Num 85, pmUnit = Some ''mg/dL'', pmPosition = 0\<rparr>,
              \<lparr>pmName = ''Glucose'', pmValue = Num 85, pmUnit = Some ''mg/d'', pmPosition = 0\<rparr>,
              \<lparr>pmName = ''Glucose'', pmValue = Num 85, pmUnit = Some ''mg/dL'', pmPosition = 0\<rparr>]"
  by code_simp

theorem value_filter_witness:
  "plausible (Num 85) \<and> isValidValue_route (Num 100001)
   \<and> (\<exists>q. Num 100001 = Num q \<and> 0 \<le> q \<and> q \<le> 10000000)"
proof -
  from value_filter[of "''Glucose: 85 mg/dL''" "Num 100001"]
  have found: "\<forall>pm \<in> set [\<lparr>pmName = ''Glucose'', pmValue = Num 85, pmUnit = Some ''mg/dL'', pmPosition = 0\<rparr>,
              \<lparr>pmName = ''Glucose'', pmValue = Num 85, pmUnit = Some ''mg/d'', pmPosition = 0\<rparr>,
              \<lparr>pmName = ''Glucose'', pmValue = Num 85, pmUnit = Some ''mg/dL'', pmPosition = 0\<rparr>].
            plausible (pmValue pm)"
    and route: "isValidValue_route (Num 100001) \<longrightarrow>
            Num 100001 = NaN \<or> (\<exists>q. Num 100001 = Num q \<and> 0 \<le> q \<and> q \<le> 10000000)"
    unfolding scan_glucose by auto
  have ok: "isValidValue_route (Num 100001)"
    by (simp add: isValidValue_route_def)
  from found have "plausible (Num 85)" by simp
  with route ok show ?thesis by simp
qed

theorem value_filter_counterexample:
  "isValidValue_route (Num 100001) \<and> \<not> plausible (Num 100001)"
  by (simp add: isValidValue_route_def plausible_def)

subsection \<open>The fallback date\<close>

text \<open>
  C2. For every text in which the \<open>Collection Date, Time\<close> label gives no date and none of
  the seven date patterns yields an accepted date, \<open>extractTestDate\<close> returns exactly the
  string \<open>2023-06-15T00:00:00.000Z\<close>, not \<open>null\<close>.
\<close>

theorem fallback_date:
  assumes "collectionDate h text = None"
    and "\<forall>p \<in> set datePatterns. tryPattern h text p = None"
  shows "extractTestDate h text = Some ''2023-06-15T00:00:00.000Z''"
  using assms by (simp add: extractTestDate_def firstSome_None toISOString_fallbackDate)

theorem fallback_date_witness:
  "extractTestDate exampleHost ''Glucose: 85 mg/dL'' = Some ''2023-06-15T00:00:00.000Z''"
proof -
  have a: "collectionDate exampleHost ''Glucose: 85 mg/dL'' = None"
    by code_simp
  have b: "\<forall>p \<in> set datePatterns. tryPattern exampleHost ''Glucose: 85 mg/dL'' p = None"
    by code_simp
  from fallback_date[OF a b] show ?thesis .
qed

subsection \<open>A file that cannot be decoded\<close>

text \<open>
  C8. For every file whose PDF decoding fails (the parser reports an error, or a text run
  cannot be decoded), the result of the file has an empty biomarker mapping, an error
  message that is not empty, and as test date the time of the clock at that moment, not
  the fixed fallback date. The shared state is left as it was.
\<close>

theorem decode_failure:
  assumes "up = Parsed DataError
           \<or> (\<exists>pages. up = Parsed (DataReady pages) \<and> decodeRuns h (concat pages) = None)"
  shows "\<exists>r. processFile h g name up = Returns (r, g)
           \<and> resultBiomarkers r = [] \<and> resultOriginalOrder r = []
           \<and> (\<exists>msg. errorMessage r = Some msg \<and> msg \<noteq> [])
           \<and> testDate r = toISOString (now h)"
  using assms by (auto simp: processFile_def failed_def)

theorem decode_failure_witness:
  "processFile exampleHost [] ''report.pdf'' (Parsed DataError) =
     Returns (\<lparr>fileName = ''report.pdf'', testDate = ''2024-03-01T12:00:00.000Z'',
               resultBiomarkers = [], resultOriginalOrder = [],
               errorMessage = Some ''Failed to parse PDF''\<rparr>, [])"
proof -
  have t: "toISOString (now exampleHost) = ''2024-03-01T12:00:00.000Z''"
    by code_simp
  from decode_failure[of "Parsed DataError" exampleHost "[]" "''report.pdf''"]
  obtain r where "processFile exampleHost [] ''report.pdf'' (Parsed DataError) = Returns (r, [])"
    by auto
  moreover have "processFile exampleHost [] ''report.pdf'' (Parsed DataError)
      = Returns (failed exampleHost ''report.pdf'' ''Failed to parse PDF'', [])"
    by (simp add: processFile_def)
  ultimately show ?thesis by (simp add: failed_def t)
qed

subsection \<open>Two runs on the same text\<close>

text \<open>
  C9. What a run of \<open>extractAllBiomarkers\<close> returns (the mapping with its keys, values,
  units, ranges and order indices, and \<open>originalOrder\<close>; or the exception; or no return)
  depends on the text alone, not on what earlier runs left in the members of
  \<open>Object.prototype\<close>: two runs on the same text come to the same.
\<close>

theorem deterministic:
  "outputOf (extractAllBiomarkers g text) = outputOf (extractAllBiomarkers g' text)"
proof (cases "scanPatterns text patternsList []")
  case (Returns found)
  note scan = this
  show ?thesis
  proof (cases "secondPass text (sortByPosition found)
                  (fold firstPassStep (sortByPosition found) emptyState)")
    case (Returns st)
    have final: "outputOf (extractAllBiomarkers x text) =
        (case outputOf (execLoop rangePattern (length text) sweepStep text (biomarkers st, x)) of
           Returns bm \<Rightarrow> Returns \<lparr>biomarkersOut = bm, originalOrderOut = originalOrder st\<rparr>
         | Throws e \<Rightarrow> Throws e
         | Diverges \<Rightarrow> Diverges)" for x
      by (simp add: extractAllBiomarkers_def scan Returns outputOf_def split: outcome.splits)
    have "outputOf (execLoop rangePattern (length text) sweepStep text (biomarkers st, g))
        = outputOf (execLoop rangePattern (length text) sweepStep text (biomarkers st, g'))"
      by (rule sweep_independent)
    then show ?thesis by (simp add: final)
  qed (simp_all add: extractAllBiomarkers_def scan outputOf_def)
qed (simp_all add: extractAllBiomarkers_def outputOf_def)


subsection \<open>The collection date\<close>

text \<open>
  C3, as the code has it. The text may hold the label more than once, and \<open>match\<close> takes
  the leftmost. For every text in which \<open>Collection Date, Time\<close>, a line break and
  \<open>08-Feb-2024\<close> stand where the leftmost match of the collection pattern starts,
  \<open>extractTestDate\<close> returns the ISO timestamp of local midnight of 2024-02-08 (when the
  host makes that a valid time; it is returned at once, before any other pattern).
\<close>

theorem collection_date_leftmost:
  assumes shape: "text = pre @ ''Collection Date, Time'' @ newline # ''08-Feb-2024'' @ post"
    and first: "map_option index (matchFirst collectionDatePattern text) = Some (length pre)"
    and valid: "newDate h 2024 1 8 = Some t"
  shows "extractTestDate h text = Some (toISOString t)"
proof -
  from first obtain mt where mt: "matchFirst collectionDatePattern text = Some mt"
    and idx: "index mt = length pre" by auto
  from matchFirst_at[OF mt] idx obtain st where
    st: "matchAt collectionDatePattern (length text) (drop (length pre) text) = Some st"
    and mk: "mt = mkMatch (length text) (drop (length pre) text) st" by auto
  have here: "drop (length pre) text = ''Collection Date, Time'' @ newline # ''08-Feb-2024'' @ post"
    unfolding shape by simp
  from st[unfolded here collection_matchAt] have "st = (post, [(1, ''08-Feb-2024'')])"
    by simp
  with mk have "group mt 1 = Some ''08-Feb-2024''"
    by (simp add: group_def mkMatch_def)
  with mt valid have "collectionDate h text = Some (toISOString t)"
    by (simp add: collectionDate_def feb_parts)
  then show ?thesis by (simp add: extractTestDate_def)
qed

theorem collection_date_leftmost_witness:
  "extractTestDate exampleHost
     (''Randox'' @ newline # ''Collection Date, Time'' @ newline # ''08-Feb-2024'' @ newline # ''Glucose: 85'')
   = Some ''2024-02-08T00:00:00.000Z''"
proof -
  have first: "map_option index (matchFirst collectionDatePattern
      ((''Randox'' @ [newline]) @ ''Collection Date, Time'' @ newline # ''08-Feb-2024'' @ (newline # ''Glucose: 85'')))
        = Some (length (''Randox'' @ [newline]))"
    by code_simp
  have valid: "newDate exampleHost 2024 1 8 = Some 1707350400000"
    by code_simp
  have str: "toISOString 1707350400000 = ''2024-02-08T00:00:00.000Z''"
    by code_simp
  from collection_date_leftmost[OF refl first valid] show ?thesis
    by (simp add: str)
qed

text \<open>The claim as stated, for every text that contains the label and the date, fails
  on a text with an earlier label: the date of the first label is returned.\<close>

theorem collection_date_counterexample:
  "includesStr twoLabels (''Collection Date, Time'' @ newline # ''08-Feb-2024'')
   \<and> extractTestDate exampleHost twoLabels = Some ''2020-01-01T00:00:00.000Z''
   \<and> map_option toISOString (newDate exampleHost 2024 1 8) = Some ''2024-02-08T00:00:00.000Z''"
  by code_simp

subsection \<open>Ranges listed apart are not checked\<close>

text \<open>
  C4 states that a reference range, if present, has \<open>min < max\<close>. The last loop of
  \<open>extractAllBiomarkers\<close> stores the two numbers it reads without comparing them (the loop
  over \<open>rangePatterns\<close> does compare). On the text \<open>Iron: 60\<close>, \<open>Iron reference 150 - 50\<close>
  the biomarker \<open>Iron\<close> gets the range 150 to 50.
\<close>

theorem backfilled_range_unordered:
  "extractAllBiomarkers [] (''Iron: 60'' @ newline # ''Iron reference 150 - 50'') =
     Returns (\<lparr>biomarkersOut =
                 [(''Iron'',
                   \<lparr>bmValue = Num 60, bmUnit = Some ''Iron'',
                    referenceRange = Some \<lparr>rmin = Num 150, rmax = Num 50\<rparr>,
                    orderIndex = 0\<rparr>)],
               originalOrderOut = [''Iron'']\<rparr>, [])"
  by code_simp

subsection \<open>Names that span lines\<close>

text \<open>
  The two loops over the candidates skip a candidate when \<open>biomarkers[name]\<close> exists, with
  the name as matched, while \<open>addBiomarker\<close> stores under the name with line breaks and
  runs of white space made single spaces. A name that spans two text runs is therefore
  never found again, and every later candidate of that name overwrites the entry.

  C5 states that of two mentions of a name the first is kept. On
  \<open>Serum\<close>, \<open>Iron: 60 ug/dL\<close>, \<open>Serum\<close>, \<open>Iron: 75 ug/dL\<close> (four text runs) the mapping holds the
  value 75 of the later mention.
\<close>

theorem later_mention_kept:
  "extractAllBiomarkers []
     (''Serum'' @ newline # ''Iron: 60 ug/dL'' @ newline # ''Serum'' @ newline # ''Iron: 75 ug/dL'') =
     Returns (\<lparr>biomarkersOut =
                 [(''Serum Iron'',
                   \<lparr>bmValue = Num 75, bmUnit = Some ''ug/dL'', referenceRange = None,
                    orderIndex = 1\<rparr>)],
               originalOrderOut = [''Serum Iron'']\<rparr>, [])"
  by code_simp

text \<open>
  C6 states that the order index of a name is its position in \<open>originalOrder\<close>. On
  \<open>Serum\<close>, \<open>Iron: 60 ug/dL\<close> the three patterns that match give three candidates of the one
  mention; the second and third overwrite the entry with order index 1, while the name
  stands at position 0 of \<open>originalOrder\<close>.
\<close>

theorem order_index_off:
  "extractAllBiomarkers [] (''Serum'' @ newline # ''Iron: 60 ug/dL'') =
     Returns (\<lparr>biomarkersOut =
                 [(''Serum Iron'',
                   \<lparr>bmValue = Num 60, bmUnit = Some ''ug/dL'', referenceRange = None,
                    orderIndex = 1\<rparr>)],
               originalOrderOut = [''Serum Iron'']\<rparr>, [])"
  by code_simp

text \<open>
  C10 states that a candidate whose name matches a dictionary entry always gets the range
  of the dictionary. On \<open>Total\<close>, \<open>Cholesterol: 180 (100 - 150)\<close> the name matches the entry
  \<open>Cholesterol\<close> (range 125 to 200), the first loop stores it with that range, and the
  second loop, which does not find it, overwrites it with the range 100 to 150 read from
  the text around it, and with no unit.
\<close>

theorem dictionary_range_overwritten:
  "find (\<lambda>known. matchesKnown (''Total'' @ newline # ''Cholesterol'') (fst known)) BIOMARKER_DEFINITIONS
     = Some (entry ''Cholesterol'' ''mg/dL'' 125 200)
   \<and> extractAllBiomarkers [] (''Total'' @ newline # ''Cholesterol: 180 (100 - 150)'') =
     Returns (\<lparr>biomarkersOut =
                 [(''Total Cholesterol'',
                   \<lparr>bmValue = Num 180, bmUnit = None,
                    referenceRange = Some \<lparr>rmin = Num 100, rmax = Num 150\<rparr>,
                    orderIndex = 1\<rparr>)],
               originalOrderOut = [''Total Cholesterol'']\<rparr>, [])"
  by code_simp

end
